theory Spec2Isabelle
  imports Complex_Main "HOL-Library.Multiset"
begin

section \<open>JavaScript values of a JSON request body\<close>

text \<open>
  \<^verbatim>\<open>express.json()\<close> hands every handler the decoded body; a handler reads its fields by
  destructuring (\<^verbatim>\<open>const { service, ... } = req.body\<close>), and a key the body lacks reads
  as \<^verbatim>\<open>undefined\<close>. A body is therefore a function from keys to values with
  \<open>JUndefined\<close> for the absent keys. The values are the primitive ones, and nested arrays
  and objects are left out. A number is a double; \<open>JNum n\<close> is the number whose value is
  the integer \<open>n\<close> (ids, ratings, amounts), so numbers with a fraction are left out, and
  since \<^verbatim>\<open>JSON.parse\<close> has rounded a literal to a double before any handler sees it,
  the integers meant are those a double holds.
\<close>

datatype jsval = JUndefined | JNull | JBool bool | JNum int | JStr string

type_synonym json_object = "string \<Rightarrow> jsval"

text \<open>
  A body written as its list of members; of two members with one key the later counts, as
  for \<^verbatim>\<open>JSON.parse\<close>.
\<close>

definition json :: "(string \<times> jsval) list \<Rightarrow> json_object" where
  "json kvs k = (case map_of (rev kvs) k of None \<Rightarrow> JUndefined | Some v \<Rightarrow> v)"

text \<open>\<^verbatim>\<open>!v\<close> is false exactly on the truthy values (ToBoolean).\<close>

fun truthy :: "jsval \<Rightarrow> bool" where
  "truthy JUndefined = False"
| "truthy JNull = False"
| "truthy (JBool b) = b"
| "truthy (JNum n) = (n \<noteq> 0)"
| "truthy (JStr s) = (s \<noteq> [])"

subsection \<open>Doubles\<close>

text \<open>
  A number a built-in computes: not-a-number, a finite double, given by its exact value,
  or an infinity. (The two zeros are not told apart.)
\<close>

datatype jsnumber = NaN | Number rat | PosInfinity | NegInfinity

fun negate :: "jsnumber \<Rightarrow> jsnumber" where
  "negate NaN = NaN"
| "negate (Number q) = Number (- q)"
| "negate PosInfinity = NegInfinity"
| "negate NegInfinity = PosInfinity"

text \<open>The number of binary digits of a natural number.\<close>

fun bitlen :: "nat \<Rightarrow> nat" where
  "bitlen n = (if n = 0 then 0 else Suc (bitlen (n div 2)))"

declare bitlen.simps [simp del]

definition pow2 :: "int \<Rightarrow> rat" where
  "pow2 k = (if 0 \<le> k then 2 ^ nat k else 1 / 2 ^ nat (- k))"

text \<open>For \<open>x > 0\<close>, the exponent \<open>e\<close> with \<open>2\<^sup>e \<le> x < 2\<^sup>e\<^sup>+\<^sup>1\<close>.\<close>

definition ilog2 :: "rat \<Rightarrow> int" where
  "ilog2 x =
     (if 1 \<le> x then int (bitlen (nat \<lfloor>x\<rfloor>)) - 1
      else - int (bitlen (nat (\<lceil>1 / x\<rceil> - 1))))"

text \<open>The nearest integer, the even one of two that are equally near.\<close>

definition round_half_even :: "rat \<Rightarrow> int" where
  "round_half_even y =
     (let f = \<lfloor>y\<rfloor>; d = y - of_int f
      in if d < 1 / 2 then f else if 1 / 2 < d then f + 1 else if even f then f else f + 1)"

text \<open>
  The double nearest to an exact value (IEEE 754 binary64, round to nearest, ties to even):
  53 significant bits, the exponent not below that of the subnormal numbers, and an
  infinity when the rounded value reaches \<open>2\<^sup>1\<^sup>0\<^sup>2\<^sup>4\<close>.
\<close>

definition double_abs :: "rat \<Rightarrow> jsnumber" where
  "double_abs x =
     (let t = max (ilog2 x) (- 1022) - 52;
          v = of_int (round_half_even (x / pow2 t)) * pow2 t
      in if 2 ^ 1024 \<le> v then PosInfinity else Number v)"

definition to_double :: "rat \<Rightarrow> jsnumber" where
  "to_double x =
     (if x = 0 then Number 0 else if 0 < x then double_abs x else negate (double_abs (- x)))"

subsection \<open>Numbers and their text\<close>

definition is_digit :: "char \<Rightarrow> bool" where
  "is_digit c = (c \<in> set ''0123456789'')"

definition digit_val :: "char \<Rightarrow> nat" where
  "digit_val c = of_char c - 48"

definition digits_val :: "string \<Rightarrow> nat" where
  "digits_val ds = foldl (\<lambda>a c. 10 * a + digit_val c) 0 ds"

text \<open>The decimal numeral of a natural number.\<close>

fun nat_digits :: "nat \<Rightarrow> string" where
  "nat_digits n =
     (if n < 10 then [''0123456789'' ! n]
      else nat_digits (n div 10) @ [''0123456789'' ! (n mod 10)])"

declare nat_digits.simps [simp del]

text \<open>
  The text of a number with an integer value of \<open>2\<^sup>5\<^sup>3\<close> or more
  (Number::toString): the fewest digits \<open>s\<close> such that \<open>s\<close> followed by zeros up to
  the length of the value still reads as the same double (of two such, the nearer, then
  the even one), printed with the zeros when it has at most 21 digits and in exponent
  notation otherwise. \<open>round_trips M c\<close> says that \<open>c\<close> reads as the double \<open>M\<close>.
\<close>

definition round_trips :: "nat \<Rightarrow> nat \<Rightarrow> bool" where
  "round_trips M c = (to_double (of_nat c) = Number (of_nat M))"

definition digits_at :: "nat \<Rightarrow> nat \<Rightarrow> nat \<Rightarrow> nat option" where
  "digits_at M D k =
     (let p = 10 ^ (D - k); lo = M div p; hi = lo + 1
      in if round_trips M (lo * p) \<and> round_trips M (hi * p)
         then Some (if M - lo * p < hi * p - M then lo
                    else if hi * p - M < M - lo * p then hi
                    else if even lo then lo else hi)
         else if round_trips M (lo * p) then Some lo
         else if round_trips M (hi * p) then Some hi
         else None)"

fun shortest :: "nat \<Rightarrow> nat \<Rightarrow> nat list \<Rightarrow> nat \<times> nat" where
  "shortest M D [] = (M, D)"
| "shortest M D (k # ks) =
     (case digits_at M D k of Some s \<Rightarrow> (s, k) | None \<Rightarrow> shortest M D ks)"

definition exponent_text :: "nat \<Rightarrow> nat \<Rightarrow> nat \<Rightarrow> string" where
  "exponent_text s k n =
     (if n \<le> 21 then nat_digits s @ replicate (n - k) (CHR ''0'')
      else if k = 1 then nat_digits s @ ''e+'' @ nat_digits (n - 1)
      else hd (nat_digits s) # CHR ''.'' # tl (nat_digits s) @ ''e+'' @ nat_digits (n - 1))"

definition big_nat_text :: "nat \<Rightarrow> string" where
  "big_nat_text N =
     (case to_double (of_nat N) of
        Number v \<Rightarrow>
          (let M = nat \<lfloor>v\<rfloor>; D = length (nat_digits M)
           in case shortest M D [1..<Suc D] of
                (s, k) \<Rightarrow> if s = 10 ^ k then exponent_text 1 1 (Suc D) else exponent_text s k D)
      | _ \<Rightarrow> ''Infinity'')"

text \<open>
  Below \<open>2\<^sup>5\<^sup>3\<close> every integer is a double of its own and its text is its decimal
  numeral.
\<close>

definition nat_text :: "nat \<Rightarrow> string" where
  "nat_text N = (if N < 2 ^ 53 then nat_digits N else big_nat_text N)"

text \<open>\<^verbatim>\<open>String(v)\<close>, which a template literal \<^verbatim>\<open>`${v}`\<close> applies as well.\<close>

fun js_String :: "jsval \<Rightarrow> string" where
  "js_String JUndefined = ''undefined''"
| "js_String JNull = ''null''"
| "js_String (JBool b) = (if b then ''true'' else ''false'')"
| "js_String (JNum n) = (if n < 0 then CHR ''-'' # nat_text (nat (- n)) else nat_text (nat n))"
| "js_String (JStr s) = s"

text \<open>
  The exact value of integer digits \<open>ip\<close> and fraction digits \<open>fp\<close>, and a scaling by a
  power of ten for the exponent part.
\<close>

definition decimal_mv :: "string \<Rightarrow> string \<Rightarrow> rat" where
  "decimal_mv ip fp = of_nat (digits_val ip) + of_nat (digits_val fp) / 10 ^ length fp"

definition scale10 :: "rat \<Rightarrow> int \<Rightarrow> rat" where
  "scale10 x k = (if 0 \<le> k then x * 10 ^ nat k else x / 10 ^ nat (- k))"

text \<open>
  An exponent part at the head of a string: \<^verbatim>\<open>e\<close> or \<^verbatim>\<open>E\<close>, an optional sign and at
  least one digit. The result is the exponent and the rest of the string.
\<close>

definition scan_exponent :: "string \<Rightarrow> (int \<times> string) option" where
  "scan_exponent s =
     (case s of
        [] \<Rightarrow> None
      | e # r \<Rightarrow>
          if e \<noteq> CHR ''e'' \<and> e \<noteq> CHR ''E'' then None
          else let neg = (r \<noteq> [] \<and> hd r = CHR ''-'');
                   r' = (if r \<noteq> [] \<and> (hd r = CHR ''-'' \<or> hd r = CHR ''+'') then tl r else r);
                   ds = takeWhile is_digit r'
               in if ds = [] then None
                  else Some ((if neg then - int (digits_val ds) else int (digits_val ds)),
                             dropWhile is_digit r'))"

text \<open>
  The longest head of a string that is an unsigned decimal literal
  (\<^verbatim>\<open>Infinity\<close>, \<^verbatim>\<open>12\<close>, \<^verbatim>\<open>12.\<close>, \<^verbatim>\<open>12.5\<close>, \<^verbatim>\<open>.5\<close>, each number with an optional exponent):
  the double nearest to its value and the rest of the string, or \<open>NaN\<close> when no head is
  one.
\<close>

definition scan_unsigned :: "string \<Rightarrow> jsnumber \<times> string" where
  "scan_unsigned s =
     (if take 8 s = ''Infinity'' then (PosInfinity, drop 8 s)
      else let ip = takeWhile is_digit s;
               r1 = dropWhile is_digit s;
               dot = (r1 \<noteq> [] \<and> hd r1 = CHR ''.'');
               fp = (if dot then takeWhile is_digit (tl r1) else []);
               r2 = (if dot then dropWhile is_digit (tl r1) else r1)
           in if ip = [] \<and> fp = [] then (NaN, s)
              else (case scan_exponent r2 of
                      None \<Rightarrow> (to_double (decimal_mv ip fp), r2)
                    | Some (k, r3) \<Rightarrow> (to_double (scale10 (decimal_mv ip fp) k), r3)))"

definition scan_signed :: "string \<Rightarrow> jsnumber \<times> string" where
  "scan_signed s =
     (case s of
        [] \<Rightarrow> (NaN, s)
      | c # r \<Rightarrow>
          if c = CHR ''-'' then (case scan_unsigned r of (v, r') \<Rightarrow> (negate v, r'))
          else if c = CHR ''+'' then scan_unsigned r
          else scan_unsigned s)"

text \<open>White space, among the ASCII characters.\<close>

definition is_ws :: "char \<Rightarrow> bool" where
  "is_ws c = (c \<in> set [CHR 0x20, CHR 0x09, CHR 0x0A, CHR 0x0B, CHR 0x0C, CHR 0x0D])"

text \<open>
  \<^verbatim>\<open>parseFloat(s)\<close>: leading white space is skipped, the longest head that is a signed
  decimal literal is read and whatever follows it is ignored.
\<close>

definition parseFloat :: "string \<Rightarrow> jsnumber" where
  "parseFloat s = fst (scan_signed (dropWhile is_ws s))"

text \<open>
  ToNumber on a string: the whole string, trimmed, must be a numeric literal; the empty
  string is 0; a literal with a radix prefix is an unsigned integer.
\<close>

definition radix_digit :: "char \<Rightarrow> nat option" where
  "radix_digit c =
     (if is_digit c then Some (digit_val c)
      else if c \<in> set ''abcdef'' then Some (of_char c - 87)
      else if c \<in> set ''ABCDEF'' then Some (of_char c - 55)
      else None)"

definition radix_val :: "nat \<Rightarrow> string \<Rightarrow> jsnumber" where
  "radix_val b ds =
     (if ds \<noteq> [] \<and> (\<forall>c \<in> set ds. case radix_digit c of None \<Rightarrow> False | Some d \<Rightarrow> d < b)
      then to_double (of_nat (foldl (\<lambda>a c. b * a + the (radix_digit c)) 0 ds))
      else NaN)"

definition StringToNumber :: "string \<Rightarrow> jsnumber" where
  "StringToNumber s =
     (let t = rev (dropWhile is_ws (rev (dropWhile is_ws s)))
      in if t = [] then Number 0
         else if take 2 t = ''0x'' \<or> take 2 t = ''0X'' then radix_val 16 (drop 2 t)
         else if take 2 t = ''0o'' \<or> take 2 t = ''0O'' then radix_val 8 (drop 2 t)
         else if take 2 t = ''0b'' \<or> take 2 t = ''0B'' then radix_val 2 (drop 2 t)
         else (case scan_signed t of (v, r) \<Rightarrow> if r = [] then v else NaN))"

fun ToNumber :: "jsval \<Rightarrow> jsnumber" where
  "ToNumber JUndefined = NaN"
| "ToNumber JNull = Number 0"
| "ToNumber (JBool b) = Number (if b then 1 else 0)"
| "ToNumber (JNum n) = Number (of_int n)"
| "ToNumber (JStr s) = StringToNumber s"

text \<open>\<^verbatim>\<open>x < y\<close> on numbers: false as soon as one side is not a number.\<close>

fun num_less :: "jsnumber \<Rightarrow> jsnumber \<Rightarrow> bool" where
  "num_less (Number a) (Number b) = (a < b)"
| "num_less (Number a) PosInfinity = True"
| "num_less NegInfinity (Number b) = True"
| "num_less NegInfinity PosInfinity = True"
| "num_less _ _ = False"

subsection \<open>String methods\<close>

text \<open>
  \<^verbatim>\<open>s.replace(/[...]/g, rep)\<close> for a class of single characters: every character of the
  class is replaced. \<open>non_numeric\<close> is the class \<^verbatim>\<open>[^0-9.]\<close>.
\<close>

fun replace_all :: "(char \<Rightarrow> bool) \<Rightarrow> string \<Rightarrow> string \<Rightarrow> string" where
  "replace_all cls rep [] = []"
| "replace_all cls rep (c # cs) =
     (if cls c then rep @ replace_all cls rep cs else c # replace_all cls rep cs)"

definition non_numeric :: "char \<Rightarrow> bool" where
  "non_numeric c = (\<not> (is_digit c \<or> c = CHR ''.''))"

text \<open>\<^verbatim>\<open>s.replace(x, rep)\<close> for a one-character string \<open>x\<close>: the first occurrence only.\<close>

fun replace_first :: "char \<Rightarrow> string \<Rightarrow> string \<Rightarrow> string" where
  "replace_first x rep [] = []"
| "replace_first x rep (c # cs) = (if c = x then rep @ cs else c # replace_first x rep cs)"

text \<open>
  A method call \<^verbatim>\<open>v.replace(...)\<close>: only a string has the method; on a number or a boolean
  the property is \<^verbatim>\<open>undefined\<close>, and calling it throws a TypeError (as reading it from
  \<^verbatim>\<open>null\<close> or \<^verbatim>\<open>undefined\<close> does).
\<close>

datatype js_error = TypeError

fun call_replace :: "jsval \<Rightarrow> char \<Rightarrow> string \<Rightarrow> js_error + string" where
  "call_replace (JStr s) x rep = Inr (replace_first x rep s)"
| "call_replace _ x rep = Inl TypeError"

text \<open>\<^verbatim>\<open>s.substr(start, len)\<close> for non-negative arguments.\<close>

definition substr :: "nat \<Rightarrow> nat \<Rightarrow> string \<Rightarrow> string" where
  "substr start len s = take len (drop start s)"
section \<open>The store\<close>

text \<open>
  Modelled from the spec: the schema of the tables \<^verbatim>\<open>booking_spa12\<close> and
  \<^verbatim>\<open>testimonials\<close>. The repository holds no table declaration; the columns are those
  the statements name and section 3 of the specification lists. The store is reached
  through \<^verbatim>\<open>pool.query\<close> only. A table is the list of its rows in insertion order and
  ids are server-generated from a sequence that starts at 1. In a booking the columns
  service, duration, name and phone are text (or null), price is the number bound (a
  decimal column of a fixed scale would round it further: the scale is not known),
  datetime is a timestamp, which is what \<^verbatim>\<open>ORDER BY\<close> compares, and payment_status is
  unset until an \<^verbatim>\<open>UPDATE\<close> writes it. A testimonial is kept as the values the statement
  bound, with the timestamp of its creation.
\<close>

record booking =
  booking_id :: int
  service :: "string option"
  duration :: "string option"
  price :: jsnumber
  name :: "string option"
  phone :: "string option"
  datetime :: int
  payment_status :: "string option"

record testimonial =
  testimonial_id :: int
  reviewer_name :: jsval
  reviewer_email :: jsval
  review_title :: jsval
  review_text :: jsval
  rating :: jsval
  genuine_opinion :: jsval
  created_at :: int

record store =
  bookings :: "booking list"
  booking_seq :: int
  testimonials :: "testimonial list"
  testimonial_seq :: int

text \<open>
  What a request cannot decide is an input of the model: whether the store fails the
  statement (it is unreachable, or refuses a value), how it reads a text as a timestamp,
  and its clock (\<^verbatim>\<open>NOW()\<close>).
\<close>

record store_env =
  fails :: bool
  timestamp_in :: "string \<Rightarrow> int option"
  now :: int

datatype store_error = StoreError

text \<open>
  The driver sends every bound value as text: \<^verbatim>\<open>null\<close> and \<^verbatim>\<open>undefined\<close> as a null,
  any other value as \<^verbatim>\<open>val.toString()\<close>.
\<close>

definition pg_bind :: "jsval \<Rightarrow> jsval" where
  "pg_bind v = (if v = JUndefined then JNull else v)"

definition pg_text :: "jsval \<Rightarrow> string option" where
  "pg_text v = (if pg_bind v = JNull then None else Some (js_String v))"

text \<open>
  The store's reading of a text as an id, a 32-bit integer (the input function of
  PostgreSQL 16): white space, a sign, then decimal digits or, after \<^verbatim>\<open>0x\<close>, \<^verbatim>\<open>0o\<close> or
  \<^verbatim>\<open>0b\<close>, digits of that radix, then white space. Single underscores may separate digits
  (and follow a radix prefix). A text that is no such numeral, or whose value is out of
  range, makes the statement fail.
\<close>

fun scan_int :: "nat \<Rightarrow> nat \<Rightarrow> string \<Rightarrow> (nat \<times> string) option" where
  "scan_int b acc [] = Some (acc, [])"
| "scan_int b acc (c # cs) =
     (if (case radix_digit c of None \<Rightarrow> False | Some d \<Rightarrow> d < b)
      then scan_int b (b * acc + the (radix_digit c)) cs
      else if c = CHR ''_''
      then (if cs \<noteq> [] \<and> (case radix_digit (hd cs) of None \<Rightarrow> False | Some d \<Rightarrow> d < b)
            then scan_int b acc cs else None)
      else Some (acc, c # cs))"

definition pg_int_in :: "string \<Rightarrow> int option" where
  "pg_int_in s =
     (let t = dropWhile is_ws s;
          neg = (t \<noteq> [] \<and> hd t = CHR ''-'');
          u = (if t \<noteq> [] \<and> (hd t = CHR ''-'' \<or> hd t = CHR ''+'') then tl t else t);
          b = (if take 2 u = ''0x'' \<or> take 2 u = ''0X'' then 16
               else if take 2 u = ''0o'' \<or> take 2 u = ''0O'' then 8
               else if take 2 u = ''0b'' \<or> take 2 u = ''0B'' then 2
               else 10);
          ds = (if b = 10 then u else drop 2 u)
      in if b = 10 \<and> take 1 ds = ''_'' then None
         else case scan_int b 0 ds of
                None \<Rightarrow> None
              | Some (n, r) \<Rightarrow>
                  if length r = length ds \<or> (\<exists>c \<in> set r. \<not> is_ws c) then None
                  else if neg then (if n \<le> 2 ^ 31 then Some (- int n) else None)
                  else (if n < 2 ^ 31 then Some (int n) else None))"

text \<open>The id a bound value denotes to the store, if any.\<close>

definition id_in :: "jsval \<Rightarrow> int option" where
  "id_in v = (case pg_text v of None \<Rightarrow> None | Some t \<Rightarrow> pg_int_in t)"

text \<open>
  \<^verbatim>\<open>ORDER BY key DESC\<close>: the rows, the largest key first. Rows with equal keys keep the
  order of the table here; SQL leaves their order open, and no property below depends
  on it.
\<close>

definition order_by_desc :: "('r \<Rightarrow> int) \<Rightarrow> 'r list \<Rightarrow> 'r list" where
  "order_by_desc key rs = sort_key (\<lambda>r. - key r) rs"

subsection \<open>The statements\<close>

text \<open>
  One function for each statement the handlers send. A statement answers with its rows
  (\<^verbatim>\<open>result.rows\<close>; \<^verbatim>\<open>result.rowCount\<close> is their number) or with an error, and leaves
  the store in a new state.
\<close>

text \<open>\<^verbatim>\<open>SELECT * FROM booking_spa12 ORDER BY datetime DESC;\<close>\<close>

definition select_bookings :: "store_env \<Rightarrow> store \<Rightarrow> (store_error + booking list) \<times> store" where
  "select_bookings env st =
     (if fails env then (Inl StoreError, st)
      else (Inr (order_by_desc datetime (bookings st)), st))"

text \<open>
  \<^verbatim>\<open>INSERT INTO booking_spa12(service, duration, price, name, phone, datetime)
  VALUES($1, $2, $3, $4, $5, $6) RETURNING *;\<close>
  The store reads the text bound to datetime as a timestamp and fails when it cannot.
  (A null datetime is taken to fail as well; the handler never binds one.)
\<close>

definition insert_booking ::
  "store_env \<Rightarrow> store \<Rightarrow> jsval \<Rightarrow> jsval \<Rightarrow> jsnumber \<Rightarrow> jsval \<Rightarrow> jsval \<Rightarrow> jsval
     \<Rightarrow> (store_error + booking list) \<times> store" where
  "insert_booking env st p1 p2 p3 p4 p5 p6 =
     (if fails env then (Inl StoreError, st)
      else case (case pg_text p6 of None \<Rightarrow> None | Some t \<Rightarrow> timestamp_in env t) of
             None \<Rightarrow> (Inl StoreError, st)
           | Some ts \<Rightarrow>
               let row = \<lparr>booking_id = booking_seq st, service = pg_text p1,
                          duration = pg_text p2, price = p3, name = pg_text p4,
                          phone = pg_text p5, datetime = ts, payment_status = None\<rparr>
               in (Inr [row],
                   st\<lparr>bookings := bookings st @ [row], booking_seq := booking_seq st + 1\<rparr>))"

text \<open>
  \<^verbatim>\<open>UPDATE booking_spa12 SET payment_status = $1 WHERE id = $2 RETURNING *;\<close>
  A null id equals no id; a text that is no id fails the statement.
\<close>

definition update_payment_status ::
  "store_env \<Rightarrow> store \<Rightarrow> string \<Rightarrow> jsval \<Rightarrow> (store_error + booking list) \<times> store" where
  "update_payment_status env st p1 p2 =
     (if fails env then (Inl StoreError, st)
      else if pg_text p2 = None then (Inr [], st)
      else case id_in p2 of
             None \<Rightarrow> (Inl StoreError, st)
           | Some k \<Rightarrow>
               let rows' = map (\<lambda>r. if booking_id r = k then r\<lparr>payment_status := Some p1\<rparr> else r)
                             (bookings st)
               in (Inr (filter (\<lambda>r. booking_id r = k) rows'), st\<lparr>bookings := rows'\<rparr>))"

text \<open>
  \<^verbatim>\<open>INSERT INTO testimonials(reviewer_name, reviewer_email, review_title, review_text,
  rating, genuine_opinion, created_at) VALUES($1, $2, $3, $4, $5, $6, NOW()) RETURNING *;\<close>
\<close>

definition insert_testimonial ::
  "store_env \<Rightarrow> store \<Rightarrow> jsval \<Rightarrow> jsval \<Rightarrow> jsval \<Rightarrow> jsval \<Rightarrow> jsval \<Rightarrow> jsval
     \<Rightarrow> (store_error + testimonial list) \<times> store" where
  "insert_testimonial env st p1 p2 p3 p4 p5 p6 =
     (if fails env then (Inl StoreError, st)
      else let row = \<lparr>testimonial_id = testimonial_seq st, reviewer_name = pg_bind p1,
                      reviewer_email = pg_bind p2, review_title = pg_bind p3,
                      review_text = pg_bind p4, rating = pg_bind p5,
                      genuine_opinion = pg_bind p6, created_at = now env\<rparr>
           in (Inr [row],
               st\<lparr>testimonials := testimonials st @ [row],
                  testimonial_seq := testimonial_seq st + 1\<rparr>))"

text \<open>\<^verbatim>\<open>SELECT * FROM testimonials ORDER BY created_at DESC;\<close>\<close>

definition select_testimonials ::
  "store_env \<Rightarrow> store \<Rightarrow> (store_error + testimonial list) \<times> store" where
  "select_testimonials env st =
     (if fails env then (Inl StoreError, st)
      else (Inr (order_by_desc created_at (testimonials st)), st))"
section \<open>The handlers\<close>

datatype body =
    Error string
  | Message string
  | Booking booking
  | Bookings "booking list"
  | Testimonial testimonial
  | Testimonials "testimonial list"
  | PaymentInitiated string string string string
  | NoBody

record response =
  status :: nat
  body :: body

text \<open>\<^verbatim>\<open>result.rows[0]\<close> as a JSON body: nothing when there is no row.\<close>

definition first_row :: "('r \<Rightarrow> body) \<Rightarrow> 'r list \<Rightarrow> body" where
  "first_row wrap rs = (case rs of [] \<Rightarrow> NoBody | r # _ \<Rightarrow> wrap r)"

text \<open>\<^verbatim>\<open>app.get('/booking_spa12', ...)\<close>\<close>

definition get_bookings :: "store_env \<Rightarrow> store \<Rightarrow> response \<times> store" where
  "get_bookings env st =
     (case select_bookings env st of
        (Inr rows, st') \<Rightarrow> (\<lparr>status = 200, body = Bookings rows\<rparr>, st')
      | (Inl err, st') \<Rightarrow>
          (\<lparr>status = 500, body = Error ''Failed to retrieve bookings from the database.''\<rparr>, st'))"

text \<open>
  \<^verbatim>\<open>const cleanPrice = parseFloat(String(price).replace(/[^0-9.]/g, ''));\<close>
\<close>

definition cleanPrice :: "jsval \<Rightarrow> jsnumber" where
  "cleanPrice v = parseFloat (replace_all non_numeric [] (js_String v))"

text \<open>\<^verbatim>\<open>app.post('/booking_spa12', ...)\<close>\<close>

definition post_booking :: "store_env \<Rightarrow> store \<Rightarrow> json_object \<Rightarrow> response \<times> store" where
  "post_booking env st b =
     (if \<not> truthy (b ''service'') \<or> \<not> truthy (b ''duration'') \<or> \<not> truthy (b ''price'')
         \<or> \<not> truthy (b ''name'') \<or> \<not> truthy (b ''phone'') \<or> \<not> truthy (b ''datetime'')
      then (\<lparr>status = 400, body = Error ''All booking fields are required.''\<rparr>, st)
      else case insert_booking env st (b ''service'') (b ''duration'') (cleanPrice (b ''price''))
                  (b ''name'') (b ''phone'') (b ''datetime'') of
             (Inr rows, st') \<Rightarrow> (\<lparr>status = 201, body = first_row Booking rows\<rparr>, st')
           | (Inl err, st') \<Rightarrow>
               (\<lparr>status = 500, body = Error ''Failed to add booking to the database.''\<rparr>, st'))"

text \<open>
  \<^verbatim>\<open>app.post('/api/payments/initiate', ...)\<close>. The handler reads the clock
  (\<^verbatim>\<open>Date.now()\<close>, here \<open>date_now\<close>) and a random number, of which only the text
  \<^verbatim>\<open>Math.random().toString(36)\<close> is used (here \<open>random36\<close>). It has no \<^verbatim>\<open>try\<close>: an
  exception leaves the handler. The response is what the timer callback sends.
\<close>

definition post_payments_initiate ::
  "nat \<Rightarrow> string \<Rightarrow> store \<Rightarrow> json_object \<Rightarrow> (js_error + response) \<times> store" where
  "post_payments_initiate date_now random36 st b =
     (if \<not> truthy (b ''amount'') \<or> \<not> truthy (b ''serviceName'') \<or> \<not> truthy (b ''bookingId'')
      then (Inr \<lparr>status = 400, body = Error
              ''Payment amount, service name, and booking ID are required to initiate payment.''\<rparr>, st)
      else case call_replace (b ''amount'') (CHR ''$'') [] of
             Inl e \<Rightarrow> (Inl e, st)
           | Inr amt \<Rightarrow>
               let simulatedQrCodeUrl = ''https://i.postimg.cc/Dz3sgw1N/QR1.jpg?amount='' @ amt
                      @ ''&bookingId='' @ js_String (b ''bookingId'');
                   transactionId = ''TXN-'' @ nat_digits date_now @ ''-'' @ substr 2 9 random36
               in (Inr \<lparr>status = 200, body = PaymentInitiated
                      ''Payment initiation successful (simulated). Scan QR to complete.''
                      simulatedQrCodeUrl transactionId ''pending''\<rparr>, st))"

text \<open>\<^verbatim>\<open>app.post('/api/payments/confirm', ...)\<close>\<close>

definition post_payments_confirm :: "store_env \<Rightarrow> store \<Rightarrow> json_object \<Rightarrow> response \<times> store" where
  "post_payments_confirm env st b =
     (if \<not> truthy (b ''bookingId'')
      then (\<lparr>status = 400, body = Error ''Booking ID is required to confirm payment.''\<rparr>, st)
      else case update_payment_status env st ''completed'' (b ''bookingId'') of
             (Inr rows, st') \<Rightarrow>
               if length rows = 0
               then (\<lparr>status = 404, body = Error (''Booking with ID '' @ js_String (b ''bookingId'')
                        @ '' not found for payment confirmation.'')\<rparr>, st')
               else (\<lparr>status = 200, body = Message (''Payment for booking ID ''
                        @ js_String (b ''bookingId'') @ '' confirmed successfully.'')\<rparr>, st')
           | (Inl err, st') \<Rightarrow>
               (\<lparr>status = 500, body = Error ''Failed to update payment status in the database.''\<rparr>,
                st'))"

text \<open>\<^verbatim>\<open>app.post('/api/testimonials', ...)\<close>\<close>

definition post_testimonials :: "store_env \<Rightarrow> store \<Rightarrow> json_object \<Rightarrow> response \<times> store" where
  "post_testimonials env st b =
     (if \<not> truthy (b ''reviewerName'') \<or> \<not> truthy (b ''reviewerEmail'')
         \<or> \<not> truthy (b ''reviewText'') \<or> \<not> truthy (b ''rating'')
         \<or> b ''genuineOpinion'' = JUndefined
      then (\<lparr>status = 400, body = Error ''All testimonial fields (except title) are required.''\<rparr>,
            st)
      else if num_less (ToNumber (b ''rating'')) (Number 1)
              \<or> num_less (Number 5) (ToNumber (b ''rating''))
      then (\<lparr>status = 400, body = Error ''Rating must be between 1 and 5.''\<rparr>, st)
      else case insert_testimonial env st (b ''reviewerName'') (b ''reviewerEmail'')
                  (b ''reviewTitle'') (b ''reviewText'') (b ''rating'') (b ''genuineOpinion'') of
             (Inr rows, st') \<Rightarrow> (\<lparr>status = 201, body = first_row Testimonial rows\<rparr>, st')
           | (Inl err, st') \<Rightarrow>
               (\<lparr>status = 500, body = Error ''Failed to add testimonial to the database.''\<rparr>, st'))"

text \<open>\<^verbatim>\<open>app.get('/api/testimonials', ...)\<close>\<close>

definition get_testimonials :: "store_env \<Rightarrow> store \<Rightarrow> response \<times> store" where
  "get_testimonials env st =
     (case select_testimonials env st of
        (Inr rows, st') \<Rightarrow> (\<lparr>status = 200, body = Testimonials rows\<rparr>, st')
      | (Inl err, st') \<Rightarrow>
          (\<lparr>status = 500, body = Error ''Failed to retrieve testimonials from the database.''\<rparr>,
           st'))"

section \<open>Properties as the specification words them, and sample data\<close>

text \<open>
  The sequences start at 1 and run ahead of the ids in use, so every id is positive. This
  holds for the empty store and every handler keeps it.
\<close>

definition store_inv :: "store \<Rightarrow> bool" where
  "store_inv st =
     (0 < booking_seq st \<and> 0 < testimonial_seq st
      \<and> (\<forall>r \<in> set (bookings st). 0 < booking_id r \<and> booking_id r < booking_seq st)
      \<and> (\<forall>t \<in> set (testimonials st). 0 < testimonial_id t \<and> testimonial_id t < testimonial_seq st))"

text \<open>The booking rows a response body carries.\<close>

fun bookings_in :: "body \<Rightarrow> booking list" where
  "bookings_in (Booking r) = [r]"
| "bookings_in (Bookings rs) = rs"
| "bookings_in _ = []"

text \<open>
  Following the specification's words for the round trip (``all submitted field values
  unchanged''): every text column of the row holds the string submitted under its name.
  The price column holds a number, so it is compared with the number the submitted value
  denotes, and the datetime column holds the timestamp the store reads from the submitted
  text.
\<close>

definition submitted_unchanged :: "store_env \<Rightarrow> json_object \<Rightarrow> booking \<Rightarrow> bool" where
  "submitted_unchanged env b row =
     (map_option JStr (service row) = Some (b ''service'')
      \<and> map_option JStr (duration row) = Some (b ''duration'')
      \<and> price row = ToNumber (b ''price'')
      \<and> map_option JStr (name row) = Some (b ''name'')
      \<and> map_option JStr (phone row) = Some (b ''phone'')
      \<and> timestamp_in env (js_String (b ''datetime'')) = Some (datetime row))"

definition round_trip_unchanged :: "store_env \<Rightarrow> store \<Rightarrow> json_object \<Rightarrow> bool" where
  "round_trip_unchanged env st b =
     (case post_booking env st b of
        (r, st') \<Rightarrow>
          (case get_bookings env st' of
             (l, st'') \<Rightarrow>
               list_ex (\<lambda>row. body r = Booking row \<and> submitted_unchanged env b row)
                 (bookings_in (body l))))"

text \<open>
  Following the specification's words for a confirmation whose bookingId matches no row:
  the store reads the bookingId, if at all, as an id that no booking has.
\<close>

definition matches_no_booking :: "store \<Rightarrow> json_object \<Rightarrow> bool" where
  "matches_no_booking st b =
     (case id_in (b ''bookingId'') of
        None \<Rightarrow> True
      | Some k \<Rightarrow> list_all (\<lambda>r. booking_id r \<noteq> k) (bookings st))"

text \<open>Sample data: a store that reads one ISO date, an empty store, bodies of requests.\<close>

definition sample_env :: store_env where
  "sample_env =
     \<lparr>fails = False,
      timestamp_in = (\<lambda>t. if t = ''2025-07-01T10:00'' then Some 1751364000 else None),
      now = 1751000000\<rparr>"

definition empty_store :: store where
  "empty_store = \<lparr>bookings = [], booking_seq = 1, testimonials = [], testimonial_seq = 1\<rparr>"

definition sample_booking :: "jsval \<Rightarrow> json_object" where
  "sample_booking p =
     json [(''service'', JStr ''Massage''), (''duration'', JNum 60), (''price'', p),
           (''name'', JStr ''Dara''), (''phone'', JStr ''012345678''),
           (''datetime'', JStr ''2025-07-01T10:00'')]"

definition sample_row :: booking where
  "sample_row =
     \<lparr>booking_id = 1, service = Some ''Massage'', duration = Some ''60'',
      price = Number 45, name = Some ''Dara'', phone = Some ''012345678'',
      datetime = 1751364000, payment_status = None\<rparr>"

definition sample_store :: store where
  "sample_store = \<lparr>bookings = [sample_row], booking_seq = 2, testimonials = [], testimonial_seq = 1\<rparr>"

definition sample_testimonial :: "jsval \<Rightarrow> json_object" where
  "sample_testimonial r =
     json [(''reviewerName'', JStr ''Dara''), (''reviewerEmail'', JStr ''dara@example.org''),
           (''reviewText'', JStr ''Very relaxing.''), (''rating'', r),
           (''genuineOpinion'', JBool False)]"

definition sample_payment :: "jsval \<Rightarrow> json_object" where
  "sample_payment a =
     json [(''amount'', a), (''serviceName'', JStr ''Massage''), (''bookingId'', JStr ''1'')]"

definition later_row :: booking where
  "later_row =
     \<lparr>booking_id = 2, service = Some ''Facial'', duration = Some ''30'',
      price = Number 30, name = Some ''Sok'', phone = Some ''098765432'',
      datetime = 1751450400, payment_status = None\<rparr>"

definition sample_review :: "int \<Rightarrow> int \<Rightarrow> testimonial" where
  "sample_review i t =
     \<lparr>testimonial_id = i, reviewer_name = JStr ''Dara'', reviewer_email = JStr ''dara@example.org'',
      review_title = JNull, review_text = JStr ''Very relaxing.'', rating = JNum 5,
      genuine_opinion = JBool True, created_at = t\<rparr>"

definition busy_store :: store where
  "busy_store =
     \<lparr>bookings = [sample_row, later_row], booking_seq = 3,
      testimonials = [sample_review 1 1751000000, sample_review 2 1751000500],
      testimonial_seq = 3\<rparr>"

section \<open>Evaluation and basic facts\<close>

lemma nat_digits_small: "n < 10 \<Longrightarrow> nat_digits n = [''0123456789'' ! n]"
  by (simp add: nat_digits.simps)

lemma nat_digits_big:
  "\<not> n < 10 \<Longrightarrow> nat_digits n = nat_digits (n div 10) @ [''0123456789'' ! (n mod 10)]"
  by (subst nat_digits.simps) simp

lemma bitlen_0: "bitlen 0 = 0"
  by (simp add: bitlen.simps)

lemma bitlen_1: "bitlen (Suc 0) = 1"
  by (simp add: bitlen.simps)

lemma bitlen_numeral: "bitlen (numeral k) = Suc (bitlen (numeral k div 2))"
  by (subst bitlen.simps) simp

lemma floor_rat_numeral: "\<lfloor>(numeral a :: rat) / numeral b\<rfloor> = numeral a div numeral b"
  using floor_divide_of_int_eq [of "numeral a" "numeral b", where ?'a = rat] by simp

lemma ceiling_rat_numeral: "\<lceil>(numeral a :: rat) / numeral b\<rceil> = - (- numeral a div numeral b)"
proof -
  have "\<lceil>(numeral a :: rat) / numeral b\<rceil>
      = - \<lfloor>(of_int (- numeral a) :: rat) / of_int (numeral b)\<rfloor>"
    by (simp add: ceiling_def)
  also have "\<dots> = - (- numeral a div numeral b)"
    by (simp only: floor_divide_of_int_eq)
  finally show ?thesis .
qed

lemmas ilog2_eval =
  ilog2_def bitlen_0 bitlen_1 bitlen_numeral floor_rat_numeral ceiling_rat_numeral

lemma pow2_pos: "0 < pow2 k"
  by (simp add: pow2_def)

text \<open>A value that is a whole number of quanta of its binade is its own double.\<close>

lemma double_exact:
  assumes "0 < x" and "x / pow2 (max (ilog2 x) (- 1022) - 52) = of_int m" and "x < 2 ^ 1024"
  shows "to_double x = Number x"
proof -
  let ?t = "max (ilog2 x) (- 1022) - 52"
  have r: "round_half_even (x / pow2 ?t) = m"
    unfolding assms(2) by (simp add: round_half_even_def)
  have "of_int m * pow2 ?t = x"
    using assms(2) pow2_pos [of ?t] by (simp add: field_simps)
  then show ?thesis
    using assms(1,3) by (simp add: to_double_def double_abs_def r Let_def)
qed

lemmas scan_defs =
  parseFloat_def scan_signed_def scan_unsigned_def scan_exponent_def is_ws_def is_digit_def
  decimal_mv_def scale10_def digits_val_def digit_val_def

lemmas int_in_defs =
  id_in_def pg_text_def pg_bind_def pg_int_in_def radix_digit_def is_digit_def is_ws_def
  digit_val_def nat_text_def Let_def

lemma pg_bind_truthy: "truthy v \<Longrightarrow> pg_bind v = v"
  by (cases v) (simp_all add: pg_bind_def)

lemma pg_text_truthy: "truthy v \<Longrightarrow> pg_text v = Some (js_String v)"
  by (cases v) (simp_all add: pg_text_def pg_bind_def)

lemma pg_text_none: "pg_text v = None \<Longrightarrow> \<not> truthy v"
  by (cases v) (simp_all add: pg_text_def pg_bind_def)

lemma id_in_text: "id_in v = Some k \<Longrightarrow> pg_text v \<noteq> None"
  by (cases "pg_text v") (simp_all add: id_in_def)

lemma id_in_samples:
  "id_in (JStr ''1'') = Some 1" "id_in (JStr ''7'') = Some 7" "id_in (JNum 1) = Some 1"
  "id_in (JNum 0) = Some 0" "id_in (JStr ''abc'') = None"
  by (simp_all add: int_in_defs nat_digits_small)

lemma js_String_small: "js_String (JNum 0) = ''0''" "js_String (JNum 1) = ''1''"
  by (simp_all add: nat_text_def nat_digits_small)

text \<open>
  A value the store reads as an id other than 0 is truthy: a number other than 0, or a
  string that is not empty.
\<close>

lemma id_in_truthy:
  assumes "id_in v = Some k" and "k \<noteq> 0"
  shows "truthy v"
proof (cases v)
  case (JNum n)
  show ?thesis
  proof (cases "n = 0")
    case True
    with JNum assms show ?thesis
      by (simp add: id_in_samples)
  next
    case False
    with JNum show ?thesis by simp
  qed
next
  case (JStr s)
  show ?thesis
  proof (cases "s = []")
    case True
    with JStr assms(1) show ?thesis
      by (simp add: int_in_defs)
  next
    case False
    with JStr show ?thesis by simp
  qed
next
  case (JBool c)
  with assms(1) show ?thesis
    by (cases c) (simp_all add: int_in_defs)
qed (use assms(1) in \<open>simp_all add: int_in_defs\<close>)

text \<open>The binary length bounds a number from both sides.\<close>

lemma bitlen_pos: "0 < n \<Longrightarrow> bitlen n = Suc (bitlen (n div 2))"
  by (subst bitlen.simps) simp

lemma bitlen_bounds: "0 < n \<Longrightarrow> 2 ^ (bitlen n - 1) \<le> n \<and> n < 2 ^ bitlen n"
proof (induction n rule: bitlen.induct)
  case (1 n)
  show ?case
  proof (cases "n div 2 = 0")
    case True
    with 1(2) have "n = 1"
      by auto
    then show ?thesis
      by (simp add: bitlen_1)
  next
    case False
    then have half: "0 < n div 2"
      by simp
    from 1(1) [OF _ half] 1(2)
    have lo: "2 ^ (bitlen (n div 2) - 1) \<le> n div 2" and hi: "n div 2 < 2 ^ bitlen (n div 2)"
      by auto
    have pos: "0 < bitlen (n div 2)"
      using half by (simp add: bitlen_pos)
    have len: "bitlen n = Suc (bitlen (n div 2))"
      using 1(2) by (rule bitlen_pos)
    have "(2::nat) ^ bitlen (n div 2) = 2 * 2 ^ (bitlen (n div 2) - 1)"
      using pos by (cases "bitlen (n div 2)") simp_all
    then have "2 ^ (bitlen n - 1) \<le> n"
      using lo by (simp add: len)
    moreover have "n < 2 ^ bitlen n"
      using hi by (simp add: len)
    ultimately show ?thesis
      by simp
  qed
qed

lemma floor_le_round: "\<lfloor>y\<rfloor> \<le> round_half_even y"
  by (simp add: round_half_even_def Let_def)

text \<open>A value of \<open>2\<^sup>1\<^sup>0\<^sup>2\<^sup>4\<close> or more overflows to the infinity.\<close>

lemma round_scaled_lower:
  assumes "k \<le> e" and "2 ^ e \<le> x"
  shows "(2::rat) ^ e \<le> of_int (round_half_even (x / 2 ^ (e - k))) * 2 ^ (e - k)"
proof -
  have split: "(2::rat) ^ e = 2 ^ k * 2 ^ (e - k)"
    using assms(1) by (simp add: power_add [symmetric])
  have "(2::rat) ^ k \<le> x / 2 ^ (e - k)"
    using assms(2) by (simp add: split pos_le_divide_eq)
  then have "of_int (2 ^ k) \<le> x / 2 ^ (e - k)"
    by simp
  then have "2 ^ k \<le> \<lfloor>x / 2 ^ (e - k)\<rfloor>"
    by (simp only: le_floor_iff)
  then have "2 ^ k \<le> round_half_even (x / 2 ^ (e - k))"
    using floor_le_round [of "x / 2 ^ (e - k)"] by (rule order_trans)
  then have "(of_int (2 ^ k) :: rat) \<le> of_int (round_half_even (x / 2 ^ (e - k)))"
    by (simp only: of_int_le_iff)
  then have "(2::rat) ^ k \<le> of_int (round_half_even (x / 2 ^ (e - k)))"
    by simp
  then have "(2::rat) ^ k * 2 ^ (e - k) \<le> of_int (round_half_even (x / 2 ^ (e - k))) * 2 ^ (e - k)"
    by (rule mult_right_mono) simp
  then show ?thesis
    by (simp only: split)
qed

lemma double_overflow:
  assumes "2 ^ 1024 \<le> x"
  shows "to_double x = PosInfinity"
proof -
  define n where "n = nat \<lfloor>x\<rfloor>"
  have x1: "1 \<le> x"
    using assms by (rule order_trans [rotated]) simp
  have "(2::int) ^ 1024 \<le> \<lfloor>x\<rfloor>"
    using assms by (simp add: le_floor_iff)
  then have big: "2 ^ 1024 \<le> n"
    unfolding n_def by (simp add: le_nat_iff)
  then have n0: "0 < n"
    by (rule less_le_trans [rotated]) simp
  from bitlen_bounds [OF n0] have lo: "2 ^ (bitlen n - 1) \<le> n" and hi: "n < 2 ^ bitlen n"
    by simp_all
  have "(2::nat) ^ 1024 < 2 ^ bitlen n"
    using big hi by (rule le_less_trans)
  moreover have "1 < (2::nat)"
    by simp
  ultimately have len: "1024 < bitlen n"
    by (rule power_less_imp_less_exp [rotated])
  define e where "e = bitlen n - 1"
  have e: "1024 \<le> e" "ilog2 x = int e"
    using len x1 by (simp_all add: e_def ilog2_def n_def)
  have t: "max (ilog2 x) (- 1022) - 52 = int (e - 52)"
    using e by simp
  have below: "of_nat n \<le> x"
    unfolding n_def using x1 by (simp add: of_nat_nat)
  have "(of_nat (2 ^ e) :: rat) \<le> of_nat n"
    using lo unfolding e_def by (simp only: of_nat_le_iff)
  then have "(2::rat) ^ e \<le> of_nat n"
    by simp
  then have xe: "2 ^ e \<le> x"
    using below by (rule order_trans)
  have "52 \<le> e"
    using e(1) by simp
  then have "(2::rat) ^ e \<le> of_int (round_half_even (x / 2 ^ (e - 52))) * 2 ^ (e - 52)"
    using xe by (rule round_scaled_lower)
  moreover have "(2::rat) ^ 1024 \<le> 2 ^ e"
    using e(1) by (rule power_increasing) simp
  ultimately have "(2::rat) ^ 1024 \<le> of_int (round_half_even (x / 2 ^ (e - 52))) * 2 ^ (e - 52)"
    by (rule order_trans [rotated])
  then have "double_abs x = PosInfinity"
    unfolding double_abs_def t by (simp add: pow2_def Let_def)
  then show ?thesis
    using x1 by (simp add: to_double_def)
qed

lemmas double_eval =
  to_double_def double_abs_def round_half_even_def pow2_def ilog2_eval Let_def

section \<open>Booking creation: validation\<close>

text \<open>
  Claim C4. A booking-create request in which one of the six required fields (service,
  duration, price, name, phone, datetime) is absent or falsy is answered with HTTP 400, and
  the store is left as it was. The answer does not depend on the store's condition: no
  statement is sent.
\<close>

theorem C4_booking_missing_field:
  assumes "k \<in> set [''service'', ''duration'', ''price'', ''name'', ''phone'', ''datetime'']"
    and "\<not> truthy (b k)"
  shows "post_booking env st b =
           (\<lparr>status = 400, body = Error ''All booking fields are required.''\<rparr>, st)"
  using assms unfolding post_booking_def by auto

theorem C4_booking_missing_field_witness:
  "post_booking (sample_env\<lparr>fails := True\<rparr>) sample_store
      (json [(''service'', JStr ''Massage''), (''duration'', JStr ''60 min''),
             (''price'', JStr ''$45.00''), (''name'', JStr ''Dara''), (''phone'', JStr []),
             (''datetime'', JStr ''2025-07-01T10:00'')])
   = (\<lparr>status = 400, body = Error ''All booking fields are required.''\<rparr>, sample_store)"
  by (rule C4_booking_missing_field [where k = "''phone''"]) (simp_all add: json_def)

section \<open>Payment confirmation\<close>

lemma no_match_unchanged:
  assumes "k \<notin> booking_id ` set rs"
  shows "map (\<lambda>r. if booking_id r = k then r\<lparr>payment_status := Some p\<rparr> else r) rs = rs"
    and "filter (\<lambda>r. booking_id r = k) rs = []"
  using assms by (induction rs) auto

lemma updated_rows_empty:
  "(filter (\<lambda>r. booking_id r = k)
      (map (\<lambda>r. if booking_id r = k then r\<lparr>payment_status := Some p\<rparr> else r) rs) = [])
   = (k \<notin> booking_id ` set rs)"
  by (induction rs) auto

lemma update_payment_status_runs:
  assumes "\<not> fails env" and "id_in v = Some k"
  shows "update_payment_status env st p v =
           (Inr (filter (\<lambda>r. booking_id r = k)
                   (map (\<lambda>r. if booking_id r = k then r\<lparr>payment_status := Some p\<rparr> else r)
                      (bookings st))),
            st\<lparr>bookings := map (\<lambda>r. if booking_id r = k then r\<lparr>payment_status := Some p\<rparr> else r)
                               (bookings st)\<rparr>)"
proof -
  obtain t where "pg_text v = Some t"
    using id_in_text [OF assms(2)] by (cases "pg_text v") simp_all
  then show ?thesis
    using assms by (simp add: update_payment_status_def Let_def del: length_filter_map)
qed

lemma update_payment_status_fails:
  assumes "fails env \<or> (pg_text v \<noteq> None \<and> id_in v = None)"
  shows "update_payment_status env st p v = (Inl StoreError, st)"
  using assms by (auto simp: update_payment_status_def)

text \<open>Whatever the request, a confirmation that is not answered with 200 changed nothing.\<close>

lemma confirm_unchanged_unless_200:
  assumes "status (fst (post_payments_confirm env st b)) \<noteq> 200"
  shows "snd (post_payments_confirm env st b) = st"
proof (cases "truthy (b ''bookingId'')")
  case False
  then show ?thesis
    by (simp add: post_payments_confirm_def)
next
  case True
  then have bound: "pg_text (b ''bookingId'') \<noteq> None"
    by (simp add: pg_text_truthy)
  show ?thesis
  proof (cases "fails env \<or> id_in (b ''bookingId'') = None")
    case True
    then show ?thesis
      using bound by (simp add: post_payments_confirm_def update_payment_status_fails)
  next
    case False
    then obtain k where k: "\<not> fails env" "id_in (b ''bookingId'') = Some k"
      by auto
    show ?thesis
    proof (cases "k \<in> booking_id ` set (bookings st)")
      case True
      with assms k show ?thesis
        by (simp add: post_payments_confirm_def update_payment_status_runs updated_rows_empty
              del: length_filter_map split: if_splits)
    next
      case False
      with k show ?thesis
        by (simp add: post_payments_confirm_def update_payment_status_runs no_match_unchanged
              del: length_filter_map)
    qed
  qed
qed

text \<open>
  Claim C5, as the code has it. A payment-confirm request whose bookingId matches no
  booking row (the store reads it as an id that no booking has, or as no id at all) alters
  no row: the store is the one before. It is answered with HTTP 404 when the bookingId is
  truthy, the store runs the statement and it reads the bookingId as an id. A falsy
  bookingId (absent, null, 0, the empty string, false) is answered 400 by the check that
  comes first, and when the store fails, or cannot read the bookingId as an id, the answer
  is 500. More generally the update is all or nothing: whenever the answer is not 200,
  whatever the request and the store's condition, the store is unchanged.
\<close>

theorem C5_confirm_unknown_booking:
  assumes "matches_no_booking st b"
  shows "post_payments_confirm env st b =
           (if \<not> truthy (b ''bookingId'')
            then \<lparr>status = 400, body = Error ''Booking ID is required to confirm payment.''\<rparr>
            else if fails env \<or> id_in (b ''bookingId'') = None
            then \<lparr>status = 500,
                   body = Error ''Failed to update payment status in the database.''\<rparr>
            else \<lparr>status = 404, body = Error (''Booking with ID '' @ js_String (b ''bookingId'')
                   @ '' not found for payment confirmation.'')\<rparr>,
            st)
         \<and> (\<forall>env' b'. status (fst (post_payments_confirm env' st b')) \<noteq> 200
               \<longrightarrow> snd (post_payments_confirm env' st b') = st)"
proof (rule conjI)
  show "post_payments_confirm env st b =
           (if \<not> truthy (b ''bookingId'')
            then \<lparr>status = 400, body = Error ''Booking ID is required to confirm payment.''\<rparr>
            else if fails env \<or> id_in (b ''bookingId'') = None
            then \<lparr>status = 500,
                   body = Error ''Failed to update payment status in the database.''\<rparr>
            else \<lparr>status = 404, body = Error (''Booking with ID '' @ js_String (b ''bookingId'')
                   @ '' not found for payment confirmation.'')\<rparr>,
            st)"
  proof (cases "truthy (b ''bookingId'')")
    case False
    then show ?thesis
      by (simp add: post_payments_confirm_def)
  next
    case True
    then have bound: "pg_text (b ''bookingId'') \<noteq> None"
      by (simp add: pg_text_truthy)
    show ?thesis
    proof (cases "fails env \<or> id_in (b ''bookingId'') = None")
      case True
      then have "update_payment_status env st ''completed'' (b ''bookingId'')
          = (Inl StoreError, st)"
        using bound by (intro update_payment_status_fails) auto
      then show ?thesis
        using True \<open>truthy (b ''bookingId'')\<close> by (simp add: post_payments_confirm_def)
    next
      case False
      then obtain k where k: "\<not> fails env" "id_in (b ''bookingId'') = Some k"
        by auto
      have "k \<notin> booking_id ` set (bookings st)"
        using assms k(2) by (auto simp: matches_no_booking_def list_all_iff)
      then show ?thesis
        using True k
        by (simp add: post_payments_confirm_def update_payment_status_runs no_match_unchanged
              del: length_filter_map)
    qed
  qed
  show "\<forall>env' b'. status (fst (post_payments_confirm env' st b')) \<noteq> 200
               \<longrightarrow> snd (post_payments_confirm env' st b') = st"
    using confirm_unchanged_unless_200 by blast
qed

theorem C5_confirm_unknown_booking_witness:
  "post_payments_confirm sample_env sample_store (json [(''bookingId'', JStr ''7'')]) =
     (\<lparr>status = 404, body = Error ''Booking with ID 7 not found for payment confirmation.''\<rparr>,
      sample_store)"
  using C5_confirm_unknown_booking [of sample_store "json [(''bookingId'', JStr ''7'')]" sample_env]
  by (simp add: matches_no_booking_def sample_env_def sample_store_def sample_row_def json_def
        id_in_samples)

text \<open>
  The claim as the specification states it fails. The bookingId 0 is read as the id 0,
  which no booking has, and the bookingId \<^verbatim>\<open>abc\<close> is read as no id at all; both match no
  booking row. The first is answered 400, the second 500, neither 404.
\<close>

theorem C5_not_404_counterexample:
  "matches_no_booking sample_store (json [(''bookingId'', JNum 0)])
   \<and> post_payments_confirm sample_env sample_store (json [(''bookingId'', JNum 0)]) =
       (\<lparr>status = 400, body = Error ''Booking ID is required to confirm payment.''\<rparr>,
        sample_store)
   \<and> matches_no_booking sample_store (json [(''bookingId'', JStr ''abc'')])
   \<and> post_payments_confirm sample_env sample_store (json [(''bookingId'', JStr ''abc'')]) =
       (\<lparr>status = 500, body = Error ''Failed to update payment status in the database.''\<rparr>,
        sample_store)"
proof -
  have zero: "post_payments_confirm sample_env sample_store (json [(''bookingId'', JNum 0)]) =
       (\<lparr>status = 400, body = Error ''Booking ID is required to confirm payment.''\<rparr>,
        sample_store)"
    by (simp add: post_payments_confirm_def json_def)
  have "pg_text (JStr ''abc'') \<noteq> None \<and> id_in (JStr ''abc'') = None"
    by (simp add: pg_text_def pg_bind_def id_in_samples)
  then have abc: "post_payments_confirm sample_env sample_store (json [(''bookingId'', JStr ''abc'')]) =
       (\<lparr>status = 500, body = Error ''Failed to update payment status in the database.''\<rparr>,
        sample_store)"
    by (simp add: post_payments_confirm_def json_def update_payment_status_fails)
  have "matches_no_booking sample_store (json [(''bookingId'', JNum 0)])"
    "matches_no_booking sample_store (json [(''bookingId'', JStr ''abc'')])"
    by (simp_all add: matches_no_booking_def json_def id_in_samples sample_store_def
          sample_row_def)
  then show ?thesis
    using zero abc by simp
qed

lemma confirm_existing:
  assumes "truthy (b ''bookingId'')" and "\<not> fails env"
    and "id_in (b ''bookingId'') = Some k" and "k \<in> booking_id ` set (bookings st)"
  shows "post_payments_confirm env st b =
           (\<lparr>status = 200, body = Message (''Payment for booking ID '' @ js_String (b ''bookingId'')
               @ '' confirmed successfully.'')\<rparr>,
            st\<lparr>bookings := map (\<lambda>r. if booking_id r = k
                                     then r\<lparr>payment_status := Some ''completed''\<rparr> else r)
                               (bookings st)\<rparr>)"
  using assms
  by (simp add: post_payments_confirm_def update_payment_status_runs updated_rows_empty
        del: length_filter_map)

lemma updated_ids:
  "map booking_id (map (\<lambda>r. if booking_id r = k then r\<lparr>payment_status := Some p\<rparr> else r) rs)
     = map booking_id rs"
  by (induction rs) auto

lemma update_twice:
  "map (\<lambda>r. if booking_id r = k then r\<lparr>payment_status := Some p\<rparr> else r)
     (map (\<lambda>r. if booking_id r = k then r\<lparr>payment_status := Some p\<rparr> else r) rs)
   = map (\<lambda>r. if booking_id r = k then r\<lparr>payment_status := Some p\<rparr> else r) rs"
  by (induction rs) auto

lemma updated_status:
  assumes "r \<in> set (map (\<lambda>r. if booking_id r = k then r\<lparr>payment_status := Some p\<rparr> else r) rs)"
    and "booking_id r = k"
  shows "payment_status r = Some p"
proof -
  from assms(1) obtain r0 where "r0 \<in> set rs"
    and r: "r = (if booking_id r0 = k then r0\<lparr>payment_status := Some p\<rparr> else r0)"
    by auto
  show ?thesis
  proof (cases "booking_id r0 = k")
    case True
    with r show ?thesis by simp
  next
    case False
    with r assms(2) show ?thesis by simp
  qed
qed

text \<open>
  Claim C3, as the code has it. A payment-confirm request whose bookingId (present, and an
  id \<open>k\<close> to the store) matches an existing booking, sent to a store that runs the
  statement, sets the payment_status of every row with that id to "completed" and leaves
  every other row, and the rest of the store, as it was. The answer is HTTP 200 with a
  confirmation message that names the booking id; the updated row, which the statement
  returns to the handler, is not part of the response.
\<close>

theorem C3_confirm_sets_completed:
  assumes "truthy (b ''bookingId'')" and "\<not> fails env"
    and "id_in (b ''bookingId'') = Some k" and "k \<in> booking_id ` set (bookings st)"
  shows "post_payments_confirm env st b =
           (\<lparr>status = 200, body = Message (''Payment for booking ID '' @ js_String (b ''bookingId'')
               @ '' confirmed successfully.'')\<rparr>,
            st\<lparr>bookings := map (\<lambda>r. if booking_id r = k
                                     then r\<lparr>payment_status := Some ''completed''\<rparr> else r)
                               (bookings st)\<rparr>)"
  using assms by (rule confirm_existing)

theorem C3_confirm_sets_completed_witness:
  "post_payments_confirm sample_env sample_store (json [(''bookingId'', JNum 1)]) =
     (\<lparr>status = 200, body = Message ''Payment for booking ID 1 confirmed successfully.''\<rparr>,
      sample_store\<lparr>bookings := [sample_row\<lparr>payment_status := Some ''completed''\<rparr>]\<rparr>)"
  using C3_confirm_sets_completed [of "json [(''bookingId'', JNum 1)]" sample_env 1 sample_store]
  by (simp add: sample_env_def sample_store_def sample_row_def json_def id_in_samples
        js_String_small del: js_String.simps)

text \<open>
  The claim as the specification states it fails: the body of the success response to a
  confirmation of the existing booking 1 is the message, and carries no booking row, while
  the row in the store is updated.
\<close>

theorem C3_response_row_counterexample:
  "fst (post_payments_confirm sample_env sample_store (json [(''bookingId'', JStr ''1'')]))
     = \<lparr>status = 200, body = Message ''Payment for booking ID 1 confirmed successfully.''\<rparr>
   \<and> bookings (snd (post_payments_confirm sample_env sample_store (json [(''bookingId'', JStr ''1'')])))
     = [sample_row\<lparr>payment_status := Some ''completed''\<rparr>]
   \<and> sample_row\<lparr>payment_status := Some ''completed''\<rparr>
     \<notin> set (bookings_in (body (fst (post_payments_confirm sample_env sample_store
                                        (json [(''bookingId'', JStr ''1'')])))))"
proof -
  have "post_payments_confirm sample_env sample_store (json [(''bookingId'', JStr ''1'')]) =
     (\<lparr>status = 200, body = Message ''Payment for booking ID 1 confirmed successfully.''\<rparr>,
      sample_store\<lparr>bookings := [sample_row\<lparr>payment_status := Some ''completed''\<rparr>]\<rparr>)"
    using confirm_existing [of "json [(''bookingId'', JStr ''1'')]" sample_env 1 sample_store]
    by (simp add: sample_env_def sample_store_def sample_row_def json_def id_in_samples)
  then show ?thesis by simp
qed

text \<open>
  Claim C9. Confirmation is idempotent. In a store as the handlers build it (ids from a
  sequence that starts at 1) and for a bookingId that the store reads as the id \<open>k\<close> of
  a booking present, with the store running both statements: confirming twice in
  succession is answered with HTTP 200 both times; the first confirmation marks every row
  with the id \<open>k\<close> "completed" and changes nothing else, so the booking is still there
  with payment_status "completed"; and the second confirmation leaves the store exactly
  as the first one left it.
\<close>

theorem C9_confirm_idempotent:
  assumes "store_inv st" and "\<not> fails env" and "\<not> fails env'"
    and "id_in (b ''bookingId'') = Some k" and "k \<in> booking_id ` set (bookings st)"
  shows "post_payments_confirm env st b =
           (\<lparr>status = 200, body = Message (''Payment for booking ID '' @ js_String (b ''bookingId'')
               @ '' confirmed successfully.'')\<rparr>,
            st\<lparr>bookings := map (\<lambda>r. if booking_id r = k
                                     then r\<lparr>payment_status := Some ''completed''\<rparr> else r)
                               (bookings st)\<rparr>)
       \<and> post_payments_confirm env' (snd (post_payments_confirm env st b)) b =
           (\<lparr>status = 200, body = Message (''Payment for booking ID '' @ js_String (b ''bookingId'')
               @ '' confirmed successfully.'')\<rparr>,
            snd (post_payments_confirm env st b))
       \<and> map booking_id (bookings (snd (post_payments_confirm env st b)))
           = map booking_id (bookings st)
       \<and> (\<exists>r \<in> set (bookings (snd (post_payments_confirm env st b))). booking_id r = k)
       \<and> (\<forall>r \<in> set (bookings (snd (post_payments_confirm env st b))).
             booking_id r = k \<longrightarrow> payment_status r = Some ''completed'')"
proof -
  let ?upd = "\<lambda>r. if booking_id r = k then r\<lparr>payment_status := Some ''completed''\<rparr> else r"
  let ?st1 = "st\<lparr>bookings := map ?upd (bookings st)\<rparr>"
  have "k \<noteq> 0"
    using assms(1,5) by (auto simp: store_inv_def)
  then have valid: "truthy (b ''bookingId'')"
    using assms(4) by (intro id_in_truthy)
  have first: "post_payments_confirm env st b =
      (\<lparr>status = 200, body = Message (''Payment for booking ID '' @ js_String (b ''bookingId'')
          @ '' confirmed successfully.'')\<rparr>, ?st1)"
    using valid assms(2,4,5) by (intro confirm_existing)
  have ids: "map booking_id (bookings ?st1) = map booking_id (bookings st)"
    by (simp add: updated_ids)
  have "booking_id ` set (bookings ?st1) = booking_id ` set (bookings st)"
    using arg_cong [OF ids, of set] by (simp only: set_map)
  then have present: "k \<in> booking_id ` set (bookings ?st1)"
    using assms(5) by simp
  then have second: "post_payments_confirm env' ?st1 b =
      (\<lparr>status = 200, body = Message (''Payment for booking ID '' @ js_String (b ''bookingId'')
          @ '' confirmed successfully.'')\<rparr>, ?st1\<lparr>bookings := map ?upd (bookings ?st1)\<rparr>)"
    using valid assms(3,4) by (intro confirm_existing)
  have same: "?st1\<lparr>bookings := map ?upd (bookings ?st1)\<rparr> = ?st1"
    by (simp add: update_twice)
  have there: "\<exists>r \<in> set (bookings ?st1). booking_id r = k"
    using present by blast
  have marked: "\<forall>r \<in> set (bookings ?st1). booking_id r = k \<longrightarrow> payment_status r = Some ''completed''"
  proof (intro ballI impI)
    fix r assume "r \<in> set (bookings ?st1)" and "booking_id r = k"
    then show "payment_status r = Some ''completed''"
      using updated_status [of r k "''completed''" "bookings st"] by simp
  qed
  show ?thesis
    unfolding first snd_conv second same
    by (intro conjI refl ids there marked)
qed

theorem C9_confirm_idempotent_witness:
  "post_payments_confirm sample_env sample_store (json [(''bookingId'', JStr ''1'')]) =
     (\<lparr>status = 200, body = Message ''Payment for booking ID 1 confirmed successfully.''\<rparr>,
      sample_store\<lparr>bookings := [sample_row\<lparr>payment_status := Some ''completed''\<rparr>]\<rparr>)
   \<and> post_payments_confirm sample_env
        (sample_store\<lparr>bookings := [sample_row\<lparr>payment_status := Some ''completed''\<rparr>]\<rparr>)
        (json [(''bookingId'', JStr ''1'')]) =
     (\<lparr>status = 200, body = Message ''Payment for booking ID 1 confirmed successfully.''\<rparr>,
      sample_store\<lparr>bookings := [sample_row\<lparr>payment_status := Some ''completed''\<rparr>]\<rparr>)"
proof -
  have inv: "store_inv sample_store"
    by (simp add: store_inv_def sample_store_def sample_row_def)
  have up: "\<not> fails sample_env"
    by (simp add: sample_env_def)
  have id: "id_in (json [(''bookingId'', JStr ''1'')] ''bookingId'') = Some 1"
    by (simp add: json_def id_in_samples)
  have present: "1 \<in> booking_id ` set (bookings sample_store)"
    by (simp add: sample_store_def sample_row_def)
  have first: "post_payments_confirm sample_env sample_store (json [(''bookingId'', JStr ''1'')]) =
     (\<lparr>status = 200, body = Message ''Payment for booking ID 1 confirmed successfully.''\<rparr>,
      sample_store\<lparr>bookings := [sample_row\<lparr>payment_status := Some ''completed''\<rparr>]\<rparr>)"
    using C9_confirm_idempotent [where st = sample_store and env = sample_env
        and env' = sample_env and b = "json [(''bookingId'', JStr ''1'')]" and k = 1,
        THEN conjunct1] inv up id present
    by (simp add: json_def sample_store_def sample_row_def)
  have "post_payments_confirm sample_env
        (snd (post_payments_confirm sample_env sample_store (json [(''bookingId'', JStr ''1'')])))
        (json [(''bookingId'', JStr ''1'')]) =
     (\<lparr>status = 200, body = Message ''Payment for booking ID 1 confirmed successfully.''\<rparr>,
      snd (post_payments_confirm sample_env sample_store (json [(''bookingId'', JStr ''1'')])))"
    using C9_confirm_idempotent [where st = sample_store and env = sample_env
        and env' = sample_env and b = "json [(''bookingId'', JStr ''1'')]" and k = 1,
        THEN conjunct2, THEN conjunct1] inv up id present
    by (simp add: json_def)
  then show ?thesis
    unfolding first snd_conv using first by simp
qed

section \<open>Listings\<close>

lemma order_by_desc_sorted:
  "sorted_wrt (\<lambda>r r'. key r' \<le> key r) (order_by_desc key rs)"
proof -
  have "sorted (map (\<lambda>r. - key r) (order_by_desc key rs))"
    unfolding order_by_desc_def by (rule sorted_sort_key)
  then show ?thesis
    by (simp add: sorted_map)
qed

lemma order_by_desc_mset: "mset (order_by_desc key rs) = mset rs"
  by (simp add: order_by_desc_def)

text \<open>
  Claim C8. For every store state, the booking list operation (on a store that runs the
  statement) answers 200 with all booking rows, each exactly as often as the table holds
  it, ordered by datetime descending, and the testimonial list operation answers 200 with
  all testimonial rows ordered by created_at descending. Neither changes the store.
\<close>

theorem C8_lists_ordered:
  assumes "\<not> fails env"
  shows "(\<exists>rows. get_bookings env st = (\<lparr>status = 200, body = Bookings rows\<rparr>, st)
            \<and> mset rows = mset (bookings st)
            \<and> sorted_wrt (\<lambda>r r'. datetime r' \<le> datetime r) rows)
       \<and> (\<exists>rows. get_testimonials env st = (\<lparr>status = 200, body = Testimonials rows\<rparr>, st)
            \<and> mset rows = mset (testimonials st)
            \<and> sorted_wrt (\<lambda>t t'. created_at t' \<le> created_at t) rows)"
  using assms
  by (simp add: get_bookings_def select_bookings_def get_testimonials_def
        select_testimonials_def order_by_desc_sorted order_by_desc_mset)

theorem C8_lists_ordered_witness:
  "get_bookings sample_env busy_store
     = (\<lparr>status = 200, body = Bookings [later_row, sample_row]\<rparr>, busy_store)
   \<and> get_testimonials sample_env busy_store
     = (\<lparr>status = 200,
         body = Testimonials [sample_review 2 1751000500, sample_review 1 1751000000]\<rparr>,
        busy_store)
   \<and> (\<exists>rows. get_bookings sample_env busy_store = (\<lparr>status = 200, body = Bookings rows\<rparr>, busy_store)
          \<and> mset rows = mset (bookings busy_store)
          \<and> sorted_wrt (\<lambda>r r'. datetime r' \<le> datetime r) rows)"
proof -
  have up: "\<not> fails sample_env"
    by (simp add: sample_env_def)
  have b: "get_bookings sample_env busy_store
     = (\<lparr>status = 200, body = Bookings [later_row, sample_row]\<rparr>, busy_store)"
    by (simp add: get_bookings_def select_bookings_def order_by_desc_def sample_env_def
          busy_store_def sample_row_def later_row_def)
  have t: "get_testimonials sample_env busy_store
     = (\<lparr>status = 200,
         body = Testimonials [sample_review 2 1751000500, sample_review 1 1751000000]\<rparr>,
        busy_store)"
    by (simp add: get_testimonials_def select_testimonials_def order_by_desc_def sample_env_def
          busy_store_def sample_review_def)
  show ?thesis
    using C8_lists_ordered [OF up, of busy_store] b t by blast
qed


section \<open>Testimonial creation\<close>

lemma insert_testimonial_runs:
  assumes "\<not> fails env"
  shows "insert_testimonial env st p1 p2 p3 p4 p5 p6 =
           (Inr [\<lparr>testimonial_id = testimonial_seq st, reviewer_name = pg_bind p1,
                  reviewer_email = pg_bind p2, review_title = pg_bind p3,
                  review_text = pg_bind p4, rating = pg_bind p5,
                  genuine_opinion = pg_bind p6, created_at = now env\<rparr>],
            st\<lparr>testimonials := testimonials st
                   @ [\<lparr>testimonial_id = testimonial_seq st, reviewer_name = pg_bind p1,
                       reviewer_email = pg_bind p2, review_title = pg_bind p3,
                       review_text = pg_bind p4, rating = pg_bind p5,
                       genuine_opinion = pg_bind p6, created_at = now env\<rparr>],
               testimonial_seq := testimonial_seq st + 1\<rparr>)"
  using assms by (simp add: insert_testimonial_def Let_def)

lemma rating_below: "num_less (ToNumber (JNum r)) (Number 1) = (r < 1)"
proof -
  have "(rat_of_int r < 1) = (r < 1)"
    by (rule of_int_less_1_iff)
  then show ?thesis by simp
qed

lemma rating_above: "num_less (Number 5) (ToNumber (JNum r)) = (5 < r)"
proof -
  have "(rat_of_int 5 < rat_of_int r) = (5 < r)"
    by (rule of_int_less_iff)
  then show ?thesis by simp
qed

lemma testimonial_in_range:
  assumes "truthy (b ''reviewerName'')" and "truthy (b ''reviewerEmail'')"
    and "truthy (b ''reviewText'')" and "b ''genuineOpinion'' \<noteq> JUndefined"
    and "b ''rating'' = JNum r" and "\<not> fails env" and "1 \<le> r" and "r \<le> 5"
  shows "post_testimonials env st b =
           (\<lparr>status = 201, body = Testimonial
               \<lparr>testimonial_id = testimonial_seq st, reviewer_name = b ''reviewerName'',
                reviewer_email = b ''reviewerEmail'', review_title = pg_bind (b ''reviewTitle''),
                review_text = b ''reviewText'', rating = JNum r,
                genuine_opinion = b ''genuineOpinion'', created_at = now env\<rparr>\<rparr>,
            st\<lparr>testimonials := testimonials st
                   @ [\<lparr>testimonial_id = testimonial_seq st, reviewer_name = b ''reviewerName'',
                       reviewer_email = b ''reviewerEmail'',
                       review_title = pg_bind (b ''reviewTitle''),
                       review_text = b ''reviewText'', rating = JNum r,
                       genuine_opinion = b ''genuineOpinion'', created_at = now env\<rparr>],
               testimonial_seq := testimonial_seq st + 1\<rparr>)"
proof -
  have checks: "truthy (b ''rating'')"
    "\<not> num_less (ToNumber (b ''rating'')) (Number 1)"
    "\<not> num_less (Number 5) (ToNumber (b ''rating''))"
    using assms(5,7,8) by (simp_all only: rating_below rating_above truthy.simps)
  have binds: "pg_bind (b ''reviewerName'') = b ''reviewerName''"
    "pg_bind (b ''reviewerEmail'') = b ''reviewerEmail''"
    "pg_bind (b ''reviewText'') = b ''reviewText''"
    "pg_bind (b ''rating'') = JNum r"
    "pg_bind (b ''genuineOpinion'') = b ''genuineOpinion''"
    using assms(1-5) by (auto simp: pg_bind_truthy pg_bind_def)
  show ?thesis
    unfolding post_testimonials_def insert_testimonial_runs [OF assms(6)] binds
    using assms(1-4) checks by (simp add: first_row_def)
qed

lemma testimonial_out_of_range:
  assumes "truthy (b ''reviewerName'')" and "truthy (b ''reviewerEmail'')"
    and "truthy (b ''reviewText'')" and "b ''genuineOpinion'' \<noteq> JUndefined"
    and "b ''rating'' = JNum r" and "r < 1 \<or> 5 < r"
  shows "post_testimonials env st b =
           (\<lparr>status = 400, body = Error
               (if r = 0 then ''All testimonial fields (except title) are required.''
                else ''Rating must be between 1 and 5.'')\<rparr>, st)"
proof (cases "r = 0")
  case True
  then have "\<not> truthy (b ''rating'')"
    using assms(5) by simp
  then show ?thesis
    using True by (simp add: post_testimonials_def)
next
  case False
  then have "truthy (b ''rating'')"
    using assms(5) by simp
  moreover have "num_less (ToNumber (b ''rating'')) (Number 1)
      \<or> num_less (Number 5) (ToNumber (b ''rating''))"
    using assms(5,6) by (simp only: rating_below rating_above)
  ultimately show ?thesis
    using False assms(1-4) by (simp add: post_testimonials_def)
qed

text \<open>
  Claim C1, as the code has it. For a testimonial-create request with the other required
  fields present, an integer rating \<open>r\<close> and a store that runs the statement: creation
  succeeds (HTTP 201, the row appended to the table and returned) if and only if
  \<open>1 \<le> r \<le> 5\<close>; for every \<open>r\<close> outside that range the response is HTTP 400 and the
  store is unchanged. The 400 carries the out-of-range message for every such \<open>r\<close> but 0;
  the rating 0 is falsy and is answered by the missing-field check, which comes first,
  with the missing-field message.
\<close>

theorem C1_testimonial_rating:
  assumes "truthy (b ''reviewerName'')" and "truthy (b ''reviewerEmail'')"
    and "truthy (b ''reviewText'')" and "b ''genuineOpinion'' \<noteq> JUndefined"
    and "b ''rating'' = JNum r" and "\<not> fails env"
  shows "((status (fst (post_testimonials env st b)) = 201) = (1 \<le> r \<and> r \<le> 5))
       \<and> (1 \<le> r \<and> r \<le> 5 \<longrightarrow>
            post_testimonials env st b =
              (\<lparr>status = 201, body = Testimonial
                  \<lparr>testimonial_id = testimonial_seq st, reviewer_name = b ''reviewerName'',
                   reviewer_email = b ''reviewerEmail'',
                   review_title = pg_bind (b ''reviewTitle''),
                   review_text = b ''reviewText'', rating = JNum r,
                   genuine_opinion = b ''genuineOpinion'', created_at = now env\<rparr>\<rparr>,
               st\<lparr>testimonials := testimonials st
                      @ [\<lparr>testimonial_id = testimonial_seq st,
                          reviewer_name = b ''reviewerName'',
                          reviewer_email = b ''reviewerEmail'',
                          review_title = pg_bind (b ''reviewTitle''),
                          review_text = b ''reviewText'', rating = JNum r,
                          genuine_opinion = b ''genuineOpinion'', created_at = now env\<rparr>],
                  testimonial_seq := testimonial_seq st + 1\<rparr>))
       \<and> (r < 1 \<or> 5 < r \<longrightarrow>
            post_testimonials env st b =
              (\<lparr>status = 400, body = Error
                  (if r = 0 then ''All testimonial fields (except title) are required.''
                   else ''Rating must be between 1 and 5.'')\<rparr>, st))"
proof (cases "1 \<le> r \<and> r \<le> 5")
  case True
  then have "1 \<le> r" and "r \<le> 5" by simp_all
  from testimonial_in_range [OF assms this, of st]
  show ?thesis using True by simp
next
  case False
  then have out: "r < 1 \<or> 5 < r" by auto
  from testimonial_out_of_range [OF assms(1-5) out, of env st]
  show ?thesis using False out by simp
qed

theorem C1_testimonial_rating_witness:
  "post_testimonials sample_env empty_store (sample_testimonial (JNum 6)) =
     (\<lparr>status = 400, body = Error ''Rating must be between 1 and 5.''\<rparr>, empty_store)
   \<and> status (fst (post_testimonials sample_env empty_store (sample_testimonial (JNum 5)))) = 201
   \<and> testimonials (snd (post_testimonials sample_env empty_store (sample_testimonial (JNum 5))))
       = [sample_review 1 1751000000\<lparr>genuine_opinion := JBool False\<rparr>]"
  using C1_testimonial_rating [of "sample_testimonial (JNum 6)" 6 sample_env empty_store]
    C1_testimonial_rating [of "sample_testimonial (JNum 5)" 5 sample_env empty_store]
  by (simp add: sample_env_def empty_store_def sample_testimonial_def sample_review_def
        json_def pg_bind_def)

text \<open>
  The claim as the specification states it fails at the rating 0, which is outside
  \<open>[1,5]\<close>: the 400 carries the missing-field message, not the out-of-range one.
\<close>

theorem C1_rating_zero_counterexample:
  "post_testimonials sample_env empty_store (sample_testimonial (JNum 0)) =
     (\<lparr>status = 400, body = Error ''All testimonial fields (except title) are required.''\<rparr>,
      empty_store)
   \<and> body (fst (post_testimonials sample_env empty_store (sample_testimonial (JNum 0))))
       \<noteq> Error ''Rating must be between 1 and 5.''"
  by (simp add: post_testimonials_def sample_testimonial_def json_def)


section \<open>Price normalisation\<close>

lemma replace_all_filter:
  "replace_all non_numeric [] s = filter (\<lambda>c. is_digit c \<or> c = CHR ''.'') s"
  by (induction s) (simp_all add: non_numeric_def)

lemma numeric_char:
  assumes "is_digit c \<or> c = CHR ''.''"
  shows "\<not> is_ws c" and "c \<noteq> CHR ''-''" and "c \<noteq> CHR ''+''" and "c \<noteq> CHR ''I''"
  using assms by (auto simp: is_ws_def is_digit_def)

text \<open>
  On a string of digits and points \<^verbatim>\<open>parseFloat\<close> has no white space to skip and meets no
  sign and no \<^verbatim>\<open>Infinity\<close>: it reads digits, a point and digits, and rounds their
  value to a double.
\<close>

lemma numeric_scan:
  assumes "\<forall>c \<in> set t. is_digit c \<or> c = CHR ''.''"
  shows "parseFloat t =
           (let ip = takeWhile is_digit t;
                r1 = dropWhile is_digit t;
                dot = (r1 \<noteq> [] \<and> hd r1 = CHR ''.'');
                fp = (if dot then takeWhile is_digit (tl r1) else []);
                r2 = (if dot then dropWhile is_digit (tl r1) else r1)
            in if ip = [] \<and> fp = [] then NaN
               else (case scan_exponent r2 of
                       None \<Rightarrow> to_double (decimal_mv ip fp)
                     | Some (k, r3) \<Rightarrow> to_double (scale10 (decimal_mv ip fp) k)))"
proof (cases t)
  case Nil
  then show ?thesis
    by (simp add: parseFloat_def scan_signed_def scan_unsigned_def)
next
  case (Cons c cs)
  with assms have c: "is_digit c \<or> c = CHR ''.''"
    by simp
  have ws: "dropWhile is_ws t = t"
    using Cons numeric_char(1) [OF c] by simp
  have sign: "scan_signed t = scan_unsigned t"
    using Cons numeric_char(2,3) [OF c] by (simp add: scan_signed_def)
  have inf: "take 8 t \<noteq> ''Infinity''"
    using Cons numeric_char(4) [OF c] by (auto simp: take_Cons')
  show ?thesis
    unfolding parseFloat_def ws sign
    by (simp add: scan_unsigned_def inf Let_def split: option.splits)
qed

lemma not_digit_point: "\<not> is_digit (CHR ''.'')"
  by (simp add: is_digit_def)

lemma parseFloat_point:
  assumes "\<forall>c \<in> set ip. is_digit c" and "\<forall>c \<in> set fp. is_digit c" and "ip @ fp \<noteq> []"
  shows "parseFloat (ip @ ''.'' @ fp) = to_double (decimal_mv ip fp)"
proof -
  have numeric: "\<forall>c \<in> set (ip @ ''.'' @ fp). is_digit c \<or> c = CHR ''.''"
    using assms(1,2) by auto
  have ip: "takeWhile is_digit (ip @ ''.'' @ fp) = ip"
    using assms(1) by (simp add: not_digit_point)
  have r1: "dropWhile is_digit (ip @ ''.'' @ fp) = ''.'' @ fp"
    using assms(1) by (simp add: not_digit_point)
  have fp: "takeWhile is_digit fp = fp" "dropWhile is_digit fp = []"
    using assms(2) by simp_all
  show ?thesis
    unfolding numeric_scan [OF numeric] ip r1
    using assms(3) by (auto simp: fp scan_exponent_def Let_def)
qed

lemma parseFloat_digits:
  assumes "\<forall>c \<in> set ds. is_digit c" and "ds \<noteq> []"
  shows "parseFloat ds = to_double (of_nat (digits_val ds))"
proof -
  have numeric: "\<forall>c \<in> set ds. is_digit c \<or> c = CHR ''.''"
    using assms(1) by auto
  have ds: "takeWhile is_digit ds = ds" "dropWhile is_digit ds = []"
    using assms(1) by simp_all
  show ?thesis
    unfolding numeric_scan [OF numeric] ds
    using assms(2) by (simp add: scan_exponent_def decimal_mv_def digits_val_def Let_def)
qed

lemma digits_1250: "\<forall>c \<in> set ''1250''. is_digit c"
  by (simp add: is_digit_def)

lemma digits_50: "\<forall>c \<in> set ''50''. is_digit c"
  by (simp add: is_digit_def)

text \<open>The value 1250.5 is a double: it is \<open>2501 \<sqdot> 2\<^sup>4\<^sup>1\<close> quanta of \<open>2\<^sup>-\<^sup>4\<^sup>2\<close>.\<close>

lemma to_double_1250_50: "to_double (2501 / 2) = Number (2501 / 2)"
  by (rule double_exact [where m = "2501 * 2 ^ 41"]) (simp_all add: ilog2_eval pow2_def)

lemma parseFloat_1250_50: "parseFloat ''1250.50'' = Number (2501 / 2)"
  using parseFloat_point [OF digits_1250 digits_50]
  by (simp add: decimal_mv_def digits_val_def digit_val_def to_double_1250_50)

text \<open>
  Claim C2. For every price input string \<open>s\<close> the booking-create normalisation removes
  every character that is not a digit or a decimal point and parses the remainder as a
  number, a double: when the remainder is a decimal numeral (digits, a point, digits), or
  an integer numeral, the normalised price is the double nearest to the value of that
  numeral (an infinity when the value is too large for a double), whatever currency
  symbols, commas or other characters \<open>s\<close> had between the digits. In particular every
  string whose remainder is \<^verbatim>\<open>1250.50\<close>, such as \<^verbatim>\<open>$1,250.50\<close>, is normalised to 1250.50,
  which is a double, and an input that strips to the empty string yields not-a-number.
\<close>

theorem C2_clean_price:
  "replace_all non_numeric [] s = filter (\<lambda>c. is_digit c \<or> c = CHR ''.'') s
   \<and> cleanPrice (JStr s) = parseFloat (filter (\<lambda>c. is_digit c \<or> c = CHR ''.'') s)
   \<and> (\<forall>ip fp. filter (\<lambda>c. is_digit c \<or> c = CHR ''.'') s = ip @ ''.'' @ fp
          \<and> (\<forall>c \<in> set (ip @ fp). is_digit c) \<and> ip @ fp \<noteq> []
        \<longrightarrow> cleanPrice (JStr s)
              = to_double (of_nat (digits_val ip) + of_nat (digits_val fp) / 10 ^ length fp))
   \<and> (\<forall>ds. filter (\<lambda>c. is_digit c \<or> c = CHR ''.'') s = ds
          \<and> (\<forall>c \<in> set ds. is_digit c) \<and> ds \<noteq> []
        \<longrightarrow> cleanPrice (JStr s) = to_double (of_nat (digits_val ds)))
   \<and> (filter (\<lambda>c. is_digit c \<or> c = CHR ''.'') s = ''1250.50''
        \<longrightarrow> cleanPrice (JStr s) = Number (2501 / 2))
   \<and> (filter (\<lambda>c. is_digit c \<or> c = CHR ''.'') s = [] \<longrightarrow> cleanPrice (JStr s) = NaN)"
proof -
  let ?t = "filter (\<lambda>c. is_digit c \<or> c = CHR ''.'') s"
  have clean: "cleanPrice (JStr s) = parseFloat ?t"
    by (simp add: cleanPrice_def replace_all_filter)
  have point: "cleanPrice (JStr s)
      = to_double (of_nat (digits_val ip) + of_nat (digits_val fp) / 10 ^ length fp)"
    if "?t = ip @ ''.'' @ fp" and "\<forall>c \<in> set (ip @ fp). is_digit c" and "ip @ fp \<noteq> []" for ip fp
  proof -
    have "parseFloat (ip @ ''.'' @ fp) = to_double (decimal_mv ip fp)"
      using that(2,3) by (intro parseFloat_point) auto
    then show ?thesis
      unfolding clean that(1) by (simp add: decimal_mv_def)
  qed
  have whole: "cleanPrice (JStr s) = to_double (of_nat (digits_val ds))"
    if "?t = ds" and "\<forall>c \<in> set ds. is_digit c" and "ds \<noteq> []" for ds
    unfolding clean that(1) using that(2,3) by (rule parseFloat_digits)
  have sample: "cleanPrice (JStr s) = Number (2501 / 2)" if "?t = ''1250.50''"
    unfolding clean that by (rule parseFloat_1250_50)
  have none: "cleanPrice (JStr s) = NaN" if "?t = []"
    unfolding clean that by (simp add: scan_defs)
  show ?thesis
  proof (intro conjI allI impI)
    show "replace_all non_numeric [] s = ?t"
      by (rule replace_all_filter)
    show "cleanPrice (JStr s) = parseFloat ?t"
      by (rule clean)
    show "cleanPrice (JStr s) = Number (2501 / 2)" if "?t = ''1250.50''"
      using that by (rule sample)
    show "cleanPrice (JStr s) = NaN" if "?t = []"
      using that by (rule none)
  next
    fix ip fp
    assume "?t = ip @ ''.'' @ fp \<and> (\<forall>c \<in> set (ip @ fp). is_digit c) \<and> ip @ fp \<noteq> []"
    then show "cleanPrice (JStr s)
        = to_double (of_nat (digits_val ip) + of_nat (digits_val fp) / 10 ^ length fp)"
      using point [of ip fp] by blast
  next
    fix ds
    assume "?t = ds \<and> (\<forall>c \<in> set ds. is_digit c) \<and> ds \<noteq> []"
    then show "cleanPrice (JStr s) = to_double (of_nat (digits_val ds))"
      using whole [of ds] by blast
  qed
qed

theorem C2_clean_price_witness:
  "cleanPrice (JStr ''$1,250.50'') = Number (2501 / 2)
   \<and> cleanPrice (JStr ''USD 45'') = Number 45
   \<and> cleanPrice (JStr ''free'') = NaN"
proof -
  have keep: "filter (\<lambda>c. is_digit c \<or> c = CHR ''.'') ''$1,250.50'' = ''1250.50''"
    "filter (\<lambda>c. is_digit c \<or> c = CHR ''.'') ''USD 45'' = ''45''"
    "filter (\<lambda>c. is_digit c \<or> c = CHR ''.'') ''free'' = []"
    by (simp_all add: is_digit_def)
  have d45: "(\<forall>c \<in> set ''45''. is_digit c) \<and> ''45'' \<noteq> []" "digits_val ''45'' = 45"
    by (simp_all add: is_digit_def digits_val_def digit_val_def)
  have a: "cleanPrice (JStr ''$1,250.50'') = Number (2501 / 2)"
    using C2_clean_price [of "''$1,250.50''", THEN conjunct2, THEN conjunct2, THEN conjunct2,
        THEN conjunct2, THEN conjunct1] keep(1)
    by (rule mp)
  have d45_double: "to_double 45 = Number 45"
    by (rule double_exact [where m = "45 * 2 ^ 47"]) (simp_all add: ilog2_eval pow2_def)
  have "cleanPrice (JStr ''USD 45'') = to_double (of_nat (digits_val ''45''))"
    using C2_clean_price [of "''USD 45''", THEN conjunct2, THEN conjunct2, THEN conjunct2,
        THEN conjunct1, rule_format, of "''45''"] keep(2) d45(1)
    by blast
  then have b: "cleanPrice (JStr ''USD 45'') = Number 45"
    by (simp only: d45(2) of_nat_numeral d45_double)
  have c: "cleanPrice (JStr ''free'') = NaN"
    using C2_clean_price [of "''free''", THEN conjunct2, THEN conjunct2, THEN conjunct2,
        THEN conjunct2, THEN conjunct2] keep(3)
    by (rule mp)
  show ?thesis
    using a b c by (intro conjI)
qed


subsection \<open>Rounding at work\<close>

text \<open>
  One tenth is not a double, and the price \<^verbatim>\<open>$0.10\<close> is read as the double next to it.
  Twenty-six nines are read as \<open>10\<^sup>2\<^sup>6\<close>, that is, as the double nearest to it, and four
  hundred nines as the infinity. A price sent as the number \<open>10\<^sup>2\<^sup>1\<close> has the text
  \<^verbatim>\<open>1e+21\<close>, of which the digits 1, 2, 1 remain.
\<close>

lemma clean_price_tenth:
  "cleanPrice (JStr ''$0.10'') = Number (3602879701896397 / 36028797018963968)"
  by (simp add: cleanPrice_def non_numeric_def scan_defs double_eval)

lemma clean_price_rounds:
  "cleanPrice (JStr ''99999999999999999999999999'') = Number 100000000000000004764729344"
  by (simp add: cleanPrice_def non_numeric_def scan_defs double_eval)

lemma foldl_nines:
  "foldl (\<lambda>a c. 10 * a + digit_val c) a (replicate n (CHR ''9'')) = (a + 1) * 10 ^ n - 1"
proof (induction n arbitrary: a)
  case 0
  show ?case by simp
next
  case (Suc n)
  have "foldl (\<lambda>a c. 10 * a + digit_val c) a (replicate (Suc n) (CHR ''9''))
      = (10 * a + 9 + 1) * 10 ^ n - 1"
  proof -
    have "digit_val (CHR ''9'') = 9"
      by (simp add: digit_val_def)
    then show ?thesis
      by (simp add: Suc)
  qed
  also have "(10 * a + 9 + 1) * 10 ^ n = (a + 1) * 10 ^ Suc n"
    by (simp add: algebra_simps)
  finally show ?case .
qed

lemma nines: "digits_val (replicate n (CHR ''9'')) = 10 ^ n - 1"
  by (simp add: digits_val_def foldl_nines)

lemma clean_price_overflows: "cleanPrice (JStr (replicate 400 (CHR ''9''))) = PosInfinity"
proof -
  have digits: "\<forall>c \<in> set (replicate 400 (CHR ''9'')). is_digit c"
    by (simp add: is_digit_def)
  have "cleanPrice (JStr (replicate 400 (CHR ''9''))) = parseFloat (replicate 400 (CHR ''9''))"
    by (simp add: cleanPrice_def replace_all_filter is_digit_def)
  also have "\<dots> = to_double (of_nat (digits_val (replicate 400 (CHR ''9''))))"
    using digits by (rule parseFloat_digits) simp
  also have "\<dots> = PosInfinity"
    by (rule double_overflow) (simp add: nines)
  finally show ?thesis .
qed

lemma text_of_large_number: "js_String (JNum (10 ^ 21)) = ''1e+21''"
  by (simp add: nat_text_def big_nat_text_def double_eval digits_at_def round_trips_def
        exponent_text_def nat_digits_small nat_digits_big upt_conv_Cons)

lemma clean_price_large_number: "cleanPrice (JNum (10 ^ 21)) = Number 121"
  using text_of_large_number
  by (simp add: cleanPrice_def non_numeric_def scan_defs double_eval del: js_String.simps)

section \<open>Payment initiation\<close>

lemma call_replace_not_string:
  assumes "\<forall>s. v \<noteq> JStr s"
  shows "call_replace v x rep = Inl TypeError"
  using assms by (cases v) simp_all

lemma initiate_not_string:
  assumes "truthy (b ''amount'')" and "truthy (b ''serviceName'')" and "truthy (b ''bookingId'')"
    and "\<forall>s. b ''amount'' \<noteq> JStr s"
  shows "post_payments_initiate date_now random36 st b = (Inl TypeError, st)"
  using assms(1-3) by (simp add: post_payments_initiate_def call_replace_not_string [OF assms(4)])

text \<open>
  For an amount that is a string the handler answers 200 with the status "pending", a
  transaction id made of the clock and the random text, and leaves the store alone.
\<close>

lemma initiate_string:
  assumes "b ''amount'' = JStr a" and "a \<noteq> []"
    and "truthy (b ''serviceName'')" and "truthy (b ''bookingId'')"
  shows "post_payments_initiate date_now random36 st b =
           (Inr \<lparr>status = 200, body = PaymentInitiated
                  ''Payment initiation successful (simulated). Scan QR to complete.''
                  (''https://i.postimg.cc/Dz3sgw1N/QR1.jpg?amount='' @ replace_first (CHR ''$'') [] a
                     @ ''&bookingId='' @ js_String (b ''bookingId''))
                  (''TXN-'' @ nat_digits date_now @ ''-'' @ take 9 (drop 2 random36))
                  ''pending''\<rparr>, st)"
  using assms by (simp add: post_payments_initiate_def substr_def)

lemma nat_digits_are_digits: "nat_digits n \<noteq> [] \<and> (\<forall>c \<in> set (nat_digits n). is_digit c)"
proof (induction n rule: nat_digits.induct)
  case (1 n)
  have digit: "is_digit (''0123456789'' ! k)" if "k < 10" for k
    unfolding is_digit_def using that by (intro nth_mem) simp
  show ?case
  proof (cases "n < 10")
    case True
    then show ?thesis
      using digit [of n] by (simp add: nat_digits_small)
  next
    case False
    then show ?thesis
      using "1.IH" digit [of "n mod 10"] by (simp add: nat_digits_big)
  qed
qed

text \<open>
  Claim C10. There is a payment-initiate request with all three fields truthy and an
  amount that is not a string, namely the number 50, on which the handler raises a
  TypeError (from calling \<^verbatim>\<open>replace\<close> on the number) instead of sending a 200 or a 400:
  past the validation the handler is not total. The same happens for every truthy amount
  that is not a string. The store is left alone.
\<close>

theorem C10_initiate_raises:
  "(\<exists>b. truthy (b ''amount'') \<and> truthy (b ''serviceName'') \<and> truthy (b ''bookingId'')
        \<and> b ''amount'' = JNum 50
        \<and> post_payments_initiate date_now random36 st b = (Inl TypeError, st))
   \<and> (\<forall>b. truthy (b ''amount'') \<and> truthy (b ''serviceName'') \<and> truthy (b ''bookingId'')
        \<and> (\<forall>s. b ''amount'' \<noteq> JStr s)
        \<longrightarrow> post_payments_initiate date_now random36 st b = (Inl TypeError, st))"
proof (intro conjI allI impI)
  let ?b = "sample_payment (JNum 50)"
  have fields: "truthy (?b ''amount'')" "truthy (?b ''serviceName'')" "truthy (?b ''bookingId'')"
    "?b ''amount'' = JNum 50" "\<forall>s. ?b ''amount'' \<noteq> JStr s"
    by (simp_all add: sample_payment_def json_def)
  from initiate_not_string [OF fields(1-3,5)] fields(1-4)
  show "\<exists>b. truthy (b ''amount'') \<and> truthy (b ''serviceName'') \<and> truthy (b ''bookingId'')
        \<and> b ''amount'' = JNum 50
        \<and> post_payments_initiate date_now random36 st b = (Inl TypeError, st)"
    by blast
next
  fix b
  assume "truthy (b ''amount'') \<and> truthy (b ''serviceName'') \<and> truthy (b ''bookingId'')
        \<and> (\<forall>s. b ''amount'' \<noteq> JStr s)"
  then show "post_payments_initiate date_now random36 st b = (Inl TypeError, st)"
    using initiate_not_string by blast
qed

theorem C10_initiate_raises_witness:
  "post_payments_initiate 1751364000000 ''0.4fzyo82mvyr'' busy_store
     (json [(''amount'', JBool True), (''serviceName'', JStr ''Facial''), (''bookingId'', JNum 2)])
   = (Inl TypeError, busy_store)"
  using C10_initiate_raises [of 1751364000000 "''0.4fzyo82mvyr''" busy_store, THEN conjunct2,
      rule_format,
      of "json [(''amount'', JBool True), (''serviceName'', JStr ''Facial''), (''bookingId'', JNum 2)]"]
  by (simp add: json_def)

text \<open>
  Claim C6 does not hold of the code: the request of the specification's example with the
  amount sent as the number 50, all three fields truthy, is not answered with HTTP 200.
  The handler raises a TypeError.
\<close>

theorem C6_initiate_number_amount:
  "post_payments_initiate 1751364000000 ''0.4fzyo82mvyr'' sample_store (sample_payment (JNum 50))
     = (Inl TypeError, sample_store)
   \<and> truthy (sample_payment (JNum 50) ''amount'')
   \<and> truthy (sample_payment (JNum 50) ''serviceName'')
   \<and> truthy (sample_payment (JNum 50) ''bookingId'')"
  by (simp add: post_payments_initiate_def sample_payment_def json_def)

theorem C6_initiate_number_amount_witness:
  "fst (post_payments_initiate 1751364000000 ''0.4fzyo82mvyr'' sample_store
          (sample_payment (JNum 50))) = Inl TypeError"
  using C6_initiate_number_amount by simp

text \<open>
  With the amount sent as a string the example is answered as the specification says:
  200, "pending", a transaction id \<^verbatim>\<open>TXN-<digits>-<alphanumeric>\<close>, the store untouched.
\<close>

lemma initiate_example:
  "post_payments_initiate 1751364000000 ''0.4fzyo82mvyr'' sample_store (sample_payment (JStr ''$50''))
     = (Inr \<lparr>status = 200, body = PaymentInitiated
              ''Payment initiation successful (simulated). Scan QR to complete.''
              ''https://i.postimg.cc/Dz3sgw1N/QR1.jpg?amount=50&bookingId=1''
              ''TXN-1751364000000-4fzyo82mv'' ''pending''\<rparr>, sample_store)"
proof -
  have "nat_digits 1751364000000 = ''1751364000000''"
    by (simp add: nat_digits_small nat_digits_big)
  then show ?thesis
    by (simp add: post_payments_initiate_def sample_payment_def json_def substr_def)
qed


section \<open>Booking creation and listing\<close>

text \<open>
  A 201 from the booking-create handler fixes what happened: the store read a timestamp
  from the text of the datetime, and the new row holds the text of each submitted value.
\<close>

lemma post_booking_created:
  assumes "status (fst (post_booking env st b)) = 201"
  shows "\<exists>ts. timestamp_in env (js_String (b ''datetime'')) = Some ts
           \<and> post_booking env st b =
               (\<lparr>status = 201, body = Booking
                   \<lparr>booking_id = booking_seq st, service = Some (js_String (b ''service'')),
                    duration = Some (js_String (b ''duration'')),
                    price = cleanPrice (b ''price''),
                    name = Some (js_String (b ''name'')),
                    phone = Some (js_String (b ''phone'')), datetime = ts,
                    payment_status = None\<rparr>\<rparr>,
                st\<lparr>bookings := bookings st
                       @ [\<lparr>booking_id = booking_seq st,
                           service = Some (js_String (b ''service'')),
                           duration = Some (js_String (b ''duration'')),
                           price = cleanPrice (b ''price''),
                           name = Some (js_String (b ''name'')),
                           phone = Some (js_String (b ''phone'')), datetime = ts,
                           payment_status = None\<rparr>],
                   booking_seq := booking_seq st + 1\<rparr>)"
proof -
  have valid: "truthy (b ''service'')" "truthy (b ''duration'')" "truthy (b ''price'')"
    "truthy (b ''name'')" "truthy (b ''phone'')" "truthy (b ''datetime'')"
    using assms by (auto simp: post_booking_def split: if_splits)
  have bound: "pg_text (b ''service'') = Some (js_String (b ''service''))"
    "pg_text (b ''duration'') = Some (js_String (b ''duration''))"
    "pg_text (b ''name'') = Some (js_String (b ''name''))"
    "pg_text (b ''phone'') = Some (js_String (b ''phone''))"
    "pg_text (b ''datetime'') = Some (js_String (b ''datetime''))"
    using valid by (simp_all add: pg_text_truthy)
  have up: "\<not> fails env"
    using assms valid by (auto simp: post_booking_def insert_booking_def split: if_splits)
  obtain ts where ts: "timestamp_in env (js_String (b ''datetime'')) = Some ts"
    using assms valid up
    by (cases "timestamp_in env (js_String (b ''datetime''))")
      (auto simp: post_booking_def insert_booking_def bound)
  show ?thesis
    using valid up ts
    by (simp add: post_booking_def insert_booking_def bound first_row_def Let_def)
qed

lemma store_inv_empty: "store_inv empty_store"
  by (simp add: store_inv_def empty_store_def)

lemma post_booking_inv:
  assumes "store_inv st"
  shows "store_inv (snd (post_booking env st b))"
proof (cases "status (fst (post_booking env st b)) = 201")
  case True
  from post_booking_created [OF this] obtain row where
    "snd (post_booking env st b) = st\<lparr>bookings := bookings st @ [row],
        booking_seq := booking_seq st + 1\<rparr>" and "booking_id row = booking_seq st"
    by force
  then show ?thesis
    using assms by (auto simp: store_inv_def)
next
  case False
  then have "snd (post_booking env st b) = st"
    by (auto simp: post_booking_def insert_booking_def first_row_def Let_def
          split: if_splits option.splits)
  then show ?thesis
    using assms by simp
qed

lemma post_testimonials_inv:
  assumes "store_inv st"
  shows "store_inv (snd (post_testimonials env st b))"
  using assms
  by (auto simp: post_testimonials_def insert_testimonial_def store_inv_def Let_def)

lemma post_payments_confirm_inv:
  assumes "store_inv st"
  shows "store_inv (snd (post_payments_confirm env st b))"
proof (cases "status (fst (post_payments_confirm env st b)) = 200")
  case False
  then show ?thesis
    using assms by (simp add: confirm_unchanged_unless_200)
next
  case True
  then obtain k where "snd (post_payments_confirm env st b) =
      st\<lparr>bookings := map (\<lambda>r. if booking_id r = k
                               then r\<lparr>payment_status := Some ''completed''\<rparr> else r)
                         (bookings st)\<rparr>"
    by (auto simp: post_payments_confirm_def update_payment_status_def Let_def
          split: if_splits option.splits)
  then show ?thesis
    using assms by (auto simp: store_inv_def)
qed

text \<open>
  Claim C7, as the code has it. After a successful booking-create (201) on a store whose
  sequence runs ahead of its ids, the subsequent listing (on a store that runs the
  statement) answers 200 with the rows the table had before and exactly one more, the
  created booking, which is the row the create returned. Its id is the one the store's
  sequence assigned, an id no earlier row has. Its service, duration, name and phone are
  the texts of the submitted values (\<^verbatim>\<open>String(v)\<close>: a submitted string itself, a
  submitted number as its numeral); its datetime is the timestamp the store read from
  the text of the submitted value; its price is the submitted price normalised (every
  character of its text but digits and points removed, the rest parsed as a double), not
  the submitted value itself.
\<close>

theorem C7_create_then_list:
  assumes "post_booking env st b = (r, st')" and "status r = 201"
    and "\<not> fails env'" and "store_inv st"
  shows "\<exists>row rows. body r = Booking row
           \<and> get_bookings env' st' = (\<lparr>status = 200, body = Bookings rows\<rparr>, st')
           \<and> mset rows = add_mset row (mset (bookings st))
           \<and> booking_id row = booking_seq st
           \<and> booking_id row \<notin> booking_id ` set (bookings st)
           \<and> service row = Some (js_String (b ''service''))
           \<and> duration row = Some (js_String (b ''duration''))
           \<and> name row = Some (js_String (b ''name''))
           \<and> phone row = Some (js_String (b ''phone''))
           \<and> timestamp_in env (js_String (b ''datetime'')) = Some (datetime row)
           \<and> price row = cleanPrice (b ''price'')
           \<and> payment_status row = None"
proof -
  have "status (fst (post_booking env st b)) = 201"
    using assms(1,2) by simp
  from post_booking_created [OF this] assms(1)
  obtain ts where ts: "timestamp_in env (js_String (b ''datetime'')) = Some ts"
    and r: "r = \<lparr>status = 201, body = Booking
               \<lparr>booking_id = booking_seq st, service = Some (js_String (b ''service'')),
                duration = Some (js_String (b ''duration'')),
                price = cleanPrice (b ''price''),
                name = Some (js_String (b ''name'')),
                phone = Some (js_String (b ''phone'')), datetime = ts,
                payment_status = None\<rparr>\<rparr>"
    and st': "st' = st\<lparr>bookings := bookings st
                       @ [\<lparr>booking_id = booking_seq st,
                           service = Some (js_String (b ''service'')),
                           duration = Some (js_String (b ''duration'')),
                           price = cleanPrice (b ''price''),
                           name = Some (js_String (b ''name'')),
                           phone = Some (js_String (b ''phone'')), datetime = ts,
                           payment_status = None\<rparr>],
                   booking_seq := booking_seq st + 1\<rparr>"
    by auto
  let ?row = "\<lparr>booking_id = booking_seq st, service = Some (js_String (b ''service'')),
                duration = Some (js_String (b ''duration'')),
                price = cleanPrice (b ''price''),
                name = Some (js_String (b ''name'')),
                phone = Some (js_String (b ''phone'')), datetime = ts,
                payment_status = None\<rparr>"
  let ?rows = "order_by_desc datetime (bookings st')"
  have listing: "get_bookings env' st' = (\<lparr>status = 200, body = Bookings ?rows\<rparr>, st')"
    using assms(3) by (simp add: get_bookings_def select_bookings_def)
  have all: "mset ?rows = add_mset ?row (mset (bookings st))"
    by (simp add: order_by_desc_mset st')
  have fresh: "booking_seq st \<notin> booking_id ` set (bookings st)"
    using assms(4) by (auto simp: store_inv_def)
  show ?thesis
    using listing all fresh ts by (intro exI [of _ ?row] exI [of _ ?rows]) (simp add: r)
qed

lemma sample_booking_fields:
  "sample_booking p ''service'' = JStr ''Massage''"
  "sample_booking p ''duration'' = JNum 60"
  "sample_booking p ''price'' = p"
  "sample_booking p ''name'' = JStr ''Dara''"
  "sample_booking p ''phone'' = JStr ''012345678''"
  "sample_booking p ''datetime'' = JStr ''2025-07-01T10:00''"
  by (simp_all add: sample_booking_def json_def)

lemma js_String_60: "js_String (JNum 60) = ''60''"
  by (simp add: nat_text_def nat_digits_small nat_digits_big)

text \<open>The value 1.25 is a double: it is \<open>5 \<sqdot> 2\<^sup>5\<^sup>0\<close> quanta of \<open>2\<^sup>-\<^sup>5\<^sup>2\<close>.\<close>

lemma to_double_1_25: "to_double (5 / 4) = Number (5 / 4)"
  by (rule double_exact [where m = "5 * 2 ^ 50"]) (simp_all add: ilog2_eval pow2_def)

lemma clean_european: "cleanPrice (JStr ''1.250,00'') = Number (5 / 4)"
  by (simp add: cleanPrice_def non_numeric_def scan_defs to_double_1_25)

lemma post_sample_booking:
  "post_booking sample_env empty_store (sample_booking (JStr ''1.250,00'')) =
     (\<lparr>status = 201, body = Booking (sample_row\<lparr>price := Number (5 / 4)\<rparr>)\<rparr>,
      empty_store\<lparr>bookings := [sample_row\<lparr>price := Number (5 / 4)\<rparr>], booking_seq := 2\<rparr>)"
  by (simp add: post_booking_def insert_booking_def sample_booking_fields clean_european
        pg_text_def pg_bind_def js_String_60 first_row_def sample_env_def empty_store_def
        sample_row_def Let_def del: js_String.simps(4))

lemma list_sample_booking:
  "get_bookings sample_env
     (empty_store\<lparr>bookings := [sample_row\<lparr>price := Number (5 / 4)\<rparr>], booking_seq := 2\<rparr>) =
     (\<lparr>status = 200, body = Bookings [sample_row\<lparr>price := Number (5 / 4)\<rparr>]\<rparr>,
      empty_store\<lparr>bookings := [sample_row\<lparr>price := Number (5 / 4)\<rparr>], booking_seq := 2\<rparr>)"
  by (simp add: get_bookings_def select_bookings_def order_by_desc_def sample_env_def)

theorem C7_create_then_list_witness:
  "\<exists>row rows.
       body \<lparr>status = 201, body = Booking (sample_row\<lparr>price := Number (5 / 4)\<rparr>)\<rparr>
         = Booking row
     \<and> get_bookings sample_env
          (empty_store\<lparr>bookings := [sample_row\<lparr>price := Number (5 / 4)\<rparr>],
             booking_seq := 2\<rparr>)
        = (\<lparr>status = 200, body = Bookings rows\<rparr>,
           empty_store\<lparr>bookings := [sample_row\<lparr>price := Number (5 / 4)\<rparr>],
             booking_seq := 2\<rparr>)
     \<and> mset rows = add_mset row (mset (bookings empty_store))
     \<and> booking_id row = booking_seq empty_store
     \<and> booking_id row \<notin> booking_id ` set (bookings empty_store)
     \<and> service row = Some (js_String (sample_booking (JStr ''1.250,00'') ''service''))
     \<and> duration row = Some (js_String (sample_booking (JStr ''1.250,00'') ''duration''))
     \<and> name row = Some (js_String (sample_booking (JStr ''1.250,00'') ''name''))
     \<and> phone row = Some (js_String (sample_booking (JStr ''1.250,00'') ''phone''))
     \<and> timestamp_in sample_env (js_String (sample_booking (JStr ''1.250,00'') ''datetime''))
         = Some (datetime row)
     \<and> price row = cleanPrice (sample_booking (JStr ''1.250,00'') ''price'')
     \<and> payment_status row = None"
proof -
  have up: "\<not> fails sample_env"
    by (simp add: sample_env_def)
  show ?thesis
    by (rule C7_create_then_list [OF post_sample_booking _ up store_inv_empty]) simp
qed

text \<open>
  The claim as the specification states it fails: a booking submitted with the price
  \<^verbatim>\<open>1.250,00\<close> and the duration 60 (a number) is created (201) and listed with the price
  1.25 and the duration \<^verbatim>\<open>"60"\<close> (a string), so the listed booking does not carry the
  submitted field values unchanged.
\<close>

theorem C7_price_changed_counterexample:
  "\<not> round_trip_unchanged sample_env empty_store (sample_booking (JStr ''1.250,00''))
   \<and> status (fst (post_booking sample_env empty_store (sample_booking (JStr ''1.250,00'')))) = 201
   \<and> map price (bookings_in (body (fst (get_bookings sample_env
        (snd (post_booking sample_env empty_store (sample_booking (JStr ''1.250,00''))))))))
       = [Number (5 / 4)]
   \<and> sample_booking (JStr ''1.250,00'') ''price'' = JStr ''1.250,00''
   \<and> map duration (bookings_in (body (fst (get_bookings sample_env
        (snd (post_booking sample_env empty_store (sample_booking (JStr ''1.250,00''))))))))
       = [Some ''60'']
   \<and> sample_booking (JStr ''1.250,00'') ''duration'' = JNum 60"
proof -
  have "ToNumber (JStr ''1.250,00'') = NaN"
    by (simp add: StringToNumber_def scan_defs)
  then show ?thesis
    by (simp add: round_trip_unchanged_def submitted_unchanged_def post_sample_booking
          list_sample_booking sample_booking_fields) (simp add: sample_row_def)
qed

end
